theory Spec2Isabelle
  imports Main
begin

section \<open>JavaScript strings\<close>

text \<open>
  The three collectors of the repository (\<^verbatim>\<open>load-properties.js\<close>, called the CLI collector
  below; \<^verbatim>\<open>load-properties-mcp.js\<close>, the MCP collector; \<^verbatim>\<open>realty-data-service.ts\<close>, the
  Lambda service) run the same extraction callback with small differences. Each is
  embedded separately; a definition shared by all three has no suffix, the others end in
  \<open>_cli\<close>, \<open>_mcp\<close> or \<open>_lambda\<close>.

  Strings are lists of characters. The model covers ASCII text: \<open>toLowerCase\<close> changes
  the letters A to Z only, and white space is the six ASCII white-space characters.
\<close>

definition isDigit :: "char \<Rightarrow> bool" where
  "isDigit c = (c \<in> set ''0123456789'')"

definition isSpace :: "char \<Rightarrow> bool" where
  "isSpace c = (c \<in> set [CHR 0x09, CHR 0x0A, CHR 0x0B, CHR 0x0C, CHR 0x0D, CHR '' ''])"

definition isAlpha :: "char \<Rightarrow> bool" where
  "isAlpha c = (c \<in> set ''abcdefghijklmnopqrstuvwxyzABCDEFGHIJKLMNOPQRSTUVWXYZ'')"

definition toLowerChar :: "char \<Rightarrow> char" where
  "toLowerChar c =
     (case map_of (zip ''ABCDEFGHIJKLMNOPQRSTUVWXYZ'' ''abcdefghijklmnopqrstuvwxyz'') c of
        None \<Rightarrow> c | Some d \<Rightarrow> d)"

definition toLowerCase :: "string \<Rightarrow> string" where
  "toLowerCase s = map toLowerChar s"

fun startsWith :: "string \<Rightarrow> string \<Rightarrow> bool" where
  "startsWith s [] = True"
| "startsWith [] (p # ps) = False"
| "startsWith (c # cs) (p # ps) = (c = p \<and> startsWith cs ps)"

fun includesStr :: "string \<Rightarrow> string \<Rightarrow> bool" where
  "includesStr [] sub = (sub = [])"
| "includesStr (c # cs) sub = (startsWith (c # cs) sub \<or> includesStr cs sub)"

definition trim :: "string \<Rightarrow> string" where
  "trim s = rev (dropWhile isSpace (rev (dropWhile isSpace s)))"

text \<open>\<open>s.replace(/\s/g, '')\<close> and \<open>s.replace(/[\$,]/g, '')\<close>.\<close>

definition removeSpaces :: "string \<Rightarrow> string" where
  "removeSpaces s = filter (\<lambda>c. \<not> isSpace c) s"

definition removeDollarComma :: "string \<Rightarrow> string" where
  "removeDollarComma s = filter (\<lambda>c. c \<noteq> CHR ''$'' \<and> c \<noteq> CHR '','') s"

definition removeCommas :: "string \<Rightarrow> string" where
  "removeCommas s = filter (\<lambda>c. c \<noteq> CHR '','') s"

section \<open>JavaScript numbers\<close>

definition digitVal :: "char \<Rightarrow> nat" where
  "digitVal c = (case map_of (zip ''0123456789'' [0, 1, 2, 3, 4, 5, 6, 7, 8, 9]) c of
                   None \<Rightarrow> 0 | Some d \<Rightarrow> d)"

definition decimalValue :: "string \<Rightarrow> nat" where
  "decimalValue ds = foldl (\<lambda>n c. 10 * n + digitVal c) 0 ds"

text \<open>
  \<open>parseInt(s)\<close> reads the decimal digits at the start of \<open>s\<close>; with none it is NaN, here
  \<open>None\<close>. Every string the collectors pass to it is made of digits only, or starts with a
  letter, so the white space, sign and hexadecimal prefix that \<open>parseInt\<close> also accepts
  never occur. The value is the exact integer: the collectors only compare it with bounds
  below \<open>2^53\<close>, where rounding to a double does not change the outcome of the comparison.
\<close>

definition parseInt :: "string \<Rightarrow> nat option" where
  "parseInt s = (case takeWhile isDigit s of [] \<Rightarrow> None | ds \<Rightarrow> Some (decimalValue ds))"

definition digitChar :: "nat \<Rightarrow> char" where
  "digitChar d = ''0123456789'' ! d"

text \<open>A non-negative integer in a template literal: its decimal digits.\<close>

function natToString :: "nat \<Rightarrow> string" where
  "natToString n = (if n < 10 then [digitChar n] else natToString (n div 10) @ [digitChar (n mod 10)])"
  by pat_completeness auto
termination
  by (relation "measure id") auto

declare natToString.simps [simp del]

text \<open>
  \<open>parseFloat\<close> is only applied to a text matched by \<open>\d+(?:\.\d+)?\<close>. Its value is kept as
  the integer part and the fraction digits without trailing zeros, which is the exact
  decimal value; \<open>String(x)\<close> writes the same digits back. (A double holds 15 significant
  decimal digits exactly; the rounding of longer inputs is not modelled.)
\<close>

type_synonym decimal = "nat \<times> string"

definition dropTrailingZeros :: "string \<Rightarrow> string" where
  "dropTrailingZeros ds = rev (dropWhile (\<lambda>c. c = CHR ''0'') (rev ds))"

definition parseFloat :: "string \<Rightarrow> decimal" where
  "parseFloat s =
     (let ip = takeWhile isDigit s; rest = dropWhile isDigit s
      in (decimalValue ip,
          case rest of
            [] \<Rightarrow> []
          | c # fs \<Rightarrow> if c = CHR ''.'' then dropTrailingZeros (takeWhile isDigit fs) else []))"

definition decimalToString :: "decimal \<Rightarrow> string" where
  "decimalToString d = (case d of (n, fs) \<Rightarrow> natToString n @ (if fs = [] then [] else CHR ''.'' # fs))"

text \<open>\<open>lo <= x && x <= hi\<close> for integers \<open>lo\<close>, \<open>hi\<close>.\<close>

definition decimalBetween :: "nat \<Rightarrow> nat \<Rightarrow> decimal \<Rightarrow> bool" where
  "decimalBetween lo hi d = (case d of (n, fs) \<Rightarrow> lo \<le> n \<and> (n < hi \<or> (n = hi \<and> fs = [])))"

section \<open>Regular expressions\<close>

text \<open>
  The regular expressions of the collectors use character classes, sequences,
  alternatives, greedy quantifiers and the end-of-input assertion. \<open>ms r s\<close> lists the rests
  of \<open>s\<close> after each way \<open>r\<close> matches at the start of \<open>s\<close>, in the order a backtracking
  matcher tries them (an alternative's left side first, one more round of a quantifier
  before stopping), so the head of the list is the match JavaScript reports. A round of a
  quantifier has to consume a character; every quantified expression here does.
\<close>

datatype rx = Cls "char \<Rightarrow> bool" | Eps | End | Seq rx rx | Alt rx rx | Rep nat "nat option" rx

fun rsize :: "rx \<Rightarrow> nat" where
  "rsize (Seq a b) = Suc (rsize a + rsize b)"
| "rsize (Alt a b) = Suc (rsize a + rsize b)"
| "rsize (Rep lo hi r) = Suc (rsize r)"
| "rsize _ = 0"

function ms :: "rx \<Rightarrow> string \<Rightarrow> string list" where
  "ms (Cls P) s = (case s of [] \<Rightarrow> [] | c # cs \<Rightarrow> if P c then [cs] else [])"
| "ms Eps s = [s]"
| "ms End s = (if s = [] then [s] else [])"
| "ms (Seq a b) s = concat (map (ms b) (ms a s))"
| "ms (Alt a b) s = ms a s @ ms b s"
| "ms (Rep lo hi r) s =
     (if hi = Some 0 then [s]
      else concat (map (\<lambda>s'. if length s' < length s
                                then ms (Rep (lo - 1) (map_option (\<lambda>h. h - 1) hi) r) s'
                                else [])
                       (ms r s))
           @ (if lo = 0 then [s] else []))"
  by pat_completeness auto
termination
  by (relation "inv_image (less_than <*lex*> less_than) (\<lambda>(r, s). (rsize r, length s))") auto

text \<open>The quantifiers and literals of the patterns.\<close>

definition rxPlus :: "rx \<Rightarrow> rx" where
  "rxPlus r = Rep 1 None r"

definition rxStar :: "rx \<Rightarrow> rx" where
  "rxStar r = Rep 0 None r"

definition rxOpt :: "rx \<Rightarrow> rx" where
  "rxOpt r = Rep 0 (Some 1) r"

definition rxTimes :: "nat \<Rightarrow> nat \<Rightarrow> rx \<Rightarrow> rx" where
  "rxTimes lo hi r = Rep lo (Some hi) r"

definition rxChr :: "char \<Rightarrow> rx" where
  "rxChr c = Cls (\<lambda>x. x = c)"

text \<open>A literal text under the \<open>i\<close> flag.\<close>

fun rxLit :: "string \<Rightarrow> rx" where
  "rxLit [] = Eps"
| "rxLit (c # cs) = Seq (Cls (\<lambda>x. toLowerChar x = toLowerChar c)) (rxLit cs)"

fun rxAlts :: "rx list \<Rightarrow> rx" where
  "rxAlts [] = Cls (\<lambda>x. False)"
| "rxAlts [r] = r"
| "rxAlts (r # rs) = Alt r (rxAlts rs)"

text \<open>
  \<open>matchAt\<close> is the text matched at the start of \<open>s\<close>. \<open>firstMatch\<close> is the leftmost match in
  \<open>s\<close>: element 0 of \<open>s.match(/r/g)\<close>, and element 0 of \<open>s.match(/r/)\<close>.
\<close>

definition matchAt :: "rx \<Rightarrow> string \<Rightarrow> string option" where
  "matchAt r s = (case ms r s of [] \<Rightarrow> None | s' # _ \<Rightarrow> Some (take (length s - length s') s))"

fun firstMatch :: "rx \<Rightarrow> string \<Rightarrow> string option" where
  "firstMatch r [] = matchAt r []"
| "firstMatch r (c # cs) =
     (case matchAt r (c # cs) of Some m \<Rightarrow> Some m | None \<Rightarrow> firstMatch r cs)"

text \<open>
  Every pattern with a capture group has the form \<open>(g)r\<close>. \<open>groupAt\<close> is what group 1
  holds when \<open>(g)r\<close> matches at the start of \<open>s\<close>; \<open>firstGroup\<close> is \<open>s.match(/(g)r/)[1]\<close>.
\<close>

definition groupAt :: "rx \<Rightarrow> rx \<Rightarrow> string \<Rightarrow> string option" where
  "groupAt g r s =
     (case concat (map (\<lambda>s1. map (\<lambda>s2. s1) (ms r s1)) (ms g s)) of
        [] \<Rightarrow> None
      | s1 # _ \<Rightarrow> Some (take (length s - length s1) s))"

fun firstGroup :: "rx \<Rightarrow> rx \<Rightarrow> string \<Rightarrow> string option" where
  "firstGroup g r [] = groupAt g r []"
| "firstGroup g r (c # cs) =
     (case groupAt g r (c # cs) of Some m \<Rightarrow> Some m | None \<Rightarrow> firstGroup g r cs)"

section \<open>The page and its listing nodes\<close>

text \<open>
  A listing node is what the extraction callback reads of it: the first descendant each
  selector finds (\<open>listing.querySelector(sel)\<close>, \<open>None\<close> for \<open>null\<close>), with its text and its
  attributes (\<open>getAttribute\<close> is \<open>None\<close> for \<open>null\<close>), and the text of the whole node. A page
  is \<open>document.querySelectorAll\<close>: the nodes a selector finds, in document order.
\<close>

record element =
  textContent :: string
  getAttribute :: "string \<rightharpoonup> string"

record listing =
  querySelector :: "string \<rightharpoonup> element"
  listingTextContent :: string

type_synonym page = "string \<Rightarrow> listing list"

text \<open>
  What a callback reads of its environment: \<open>Date.now()\<close>, \<open>new Date().toISOString()\<close>
  (twice in the MCP collector), the text \<open>Math.random().toString(36).substr(2, 9)\<close> of the
  MCP collector, and the three \<open>Math.random()\<close> draws of the address fallback. A draw is a
  fraction \<open>(p, q)\<close> standing for \<open>p / q\<close>, with \<open>p < q\<close> as \<open>Math.random()\<close> is below 1;
  \<open>Math.floor(Math.random() * n)\<close> is then \<open>p * n div q\<close> (the rounding of the product to a
  double is not modelled).
\<close>

type_synonym random = "nat \<times> nat"

definition validRandom :: "random \<Rightarrow> bool" where
  "validRandom r = (fst r < snd r)"

definition floorRandom :: "random \<Rightarrow> nat \<Rightarrow> nat" where
  "floorRandom r n = (fst r * n) div snd r"

record env =
  now :: nat
  isoString :: string
  isoString2 :: string
  randomSuffix :: string
  random1 :: random
  random2 :: random
  random3 :: random

section \<open>Selector cascades\<close>

definition priceSelectors :: "string list" where
  \<open>priceSelectors =
     [''.listing-price'', ''.price'', ''[class*="price"]'', ''.listing-card-price'',
      ''.property-price'', ''[data-testid*="price"]'', ''span[class*="price"]'',
      ''div[class*="price"]'']\<close>

definition addressSelectors :: "string list" where
  \<open>addressSelectors =
     [''.listing-address'', ''.address'', ''.listing-card-address'', ''.property-address'',
      ''h3'', ''h4'', ''h2'', ''[class*="address"]'', ''[data-testid*="address"]'']\<close>

definition imageSelectors :: "string list" where
  \<open>imageSelectors =
     [''.listing-image img'', ''.property-image img'', ''.listing-card img'',
      ''img[src*="listing"]'', ''img[src*="property"]'', ''img[src*="realty"]'',
      ''img[alt*="property"]'', ''img[alt*="listing"]'', ''img'']\<close>

definition linkSelectors :: "string list" where
  \<open>linkSelectors =
     [''a[href*="/home-listings/"]'', ''a[href*="/property/"]'', ''a[href*="/listing/"]'',
      ''a[href*="/realty/"]'', ''a[href*="/home/"]'', ''a'']\<close>

fun extractText :: "listing \<Rightarrow> string list \<Rightarrow> string" where
  "extractText l [] = []"
| "extractText l (sel # sels) =
     (case querySelector l sel of
        None \<Rightarrow> extractText l sels
      | Some element \<Rightarrow>
          (let text = trim (textContent element)
           in if text \<noteq> [] then text else extractText l sels))"

text \<open>The Lambda service skips a text that names the agent.\<close>

fun extractText_lambda :: "listing \<Rightarrow> string list \<Rightarrow> string" where
  "extractText_lambda l [] = []"
| "extractText_lambda l (sel # sels) =
     (case querySelector l sel of
        None \<Rightarrow> extractText_lambda l sels
      | Some element \<Rightarrow>
          (let text = trim (textContent element)
           in if text \<noteq> [] \<and> \<not> includesStr text ''Eddie Staats'' \<and> \<not> includesStr text ''Agent''
              then text else extractText_lambda l sels))"

fun extractAttribute :: "listing \<Rightarrow> string list \<Rightarrow> string \<Rightarrow> string" where
  "extractAttribute l [] attribute = []"
| "extractAttribute l (sel # sels) attribute =
     (case querySelector l sel of
        None \<Rightarrow> extractAttribute l sels attribute
      | Some element \<Rightarrow>
          (case getAttribute element attribute of
             None \<Rightarrow> extractAttribute l sels attribute
           | Some attr \<Rightarrow> if attr \<noteq> [] then attr else extractAttribute l sels attribute))"

text \<open>\<open>a || b\<close> on strings: the empty string is the only falsy one.\<close>

definition orElse :: "string \<Rightarrow> string \<Rightarrow> string" where
  "orElse a b = (if a \<noteq> [] then a else b)"

section \<open>Image and property URLs\<close>

definition extractImageUrl :: "listing \<Rightarrow> string" where
  "extractImageUrl l =
     orElse (extractAttribute l imageSelectors ''src'')
       (orElse (extractAttribute l imageSelectors ''data-src'')
          (orElse (extractAttribute l imageSelectors ''data-lazy-src'')
             (extractAttribute l imageSelectors ''data-original'')))"

definition normalizeImageUrl :: "string \<Rightarrow> string" where
  "normalizeImageUrl imageUrl =
     (if imageUrl \<noteq> [] \<and> \<not> startsWith imageUrl ''http'' \<and> \<not> startsWith imageUrl ''data:''
      then (if startsWith imageUrl ''//'' then ''https:'' @ imageUrl
            else if startsWith imageUrl ''/'' then ''https://www.realty.com'' @ imageUrl
            else imageUrl)
      else imageUrl)"

text \<open>The property URL made absolute, as all three collectors do.\<close>

definition absoluteUrl :: "string \<Rightarrow> string" where
  "absoluteUrl propertyUrl =
     (if \<not> startsWith propertyUrl ''http''
      then (if startsWith propertyUrl ''/'' then ''https://www.realty.com'' @ propertyUrl
            else ''https://www.realty.com/'' @ propertyUrl)
      else propertyUrl)"

text \<open>The filter on non-property URLs of the CLI collector and the Lambda service.\<close>

definition nonPropertyUrl :: "string \<Rightarrow> bool" where
  "nonPropertyUrl propertyUrl =
     (includesStr propertyUrl ''mailto:'' \<or> includesStr propertyUrl ''tel:''
      \<or> includesStr propertyUrl ''javascript:'' \<or> includesStr propertyUrl ''#''
      \<or> includesStr propertyUrl ''agent'' \<or> includesStr propertyUrl ''contact'')"

definition normalizePropertyUrl :: "string \<Rightarrow> string" where
  "normalizePropertyUrl href =
     (if href \<noteq> []
      then (let propertyUrl = absoluteUrl href
            in if nonPropertyUrl propertyUrl then [] else propertyUrl)
      else href)"

text \<open>The MCP collector makes the URL absolute and has no filter.\<close>

definition normalizePropertyUrl_mcp :: "string \<Rightarrow> string" where
  "normalizePropertyUrl_mcp href = (if href \<noteq> [] then absoluteUrl href else href)"

section \<open>Field parsers\<close>

text \<open>The character classes \<open>\d\<close>, \<open>\s\<close>, \<open>[\d,]\<close> and \<open>[A-Za-z\s]\<close>.\<close>

definition rxDigit :: rx where
  "rxDigit = Cls isDigit"

definition rxSpace :: rx where
  "rxSpace = Cls isSpace"

definition rxDigitComma :: rx where
  "rxDigitComma = Cls (\<lambda>c. isDigit c \<or> c = CHR '','')"

definition rxAlphaSpace :: rx where
  "rxAlphaSpace = Cls (\<lambda>c. isAlpha c \<or> isSpace c)"

subsection \<open>Price\<close>

definition invalidPriceIndicators :: "string list" where
  "invalidPriceIndicators =
     [''price available'', ''price not available'', ''call for price'',
      ''contact for price'', ''price upon request'', ''tbd'', ''n/a'',
      ''coming soon'', ''off market'', ''sold'']"

text \<open>\<open>/\$[\d,]+/g\<close>, \<open>/\$\s*[\d,]+/g\<close> and \<open>/[\d,]+\s*\$/g\<close>.\<close>

definition pricePatterns :: "rx list" where
  "pricePatterns =
     [Seq (rxChr CHR ''$'') (rxPlus rxDigitComma),
      Seq (rxChr CHR ''$'') (Seq (rxStar rxSpace) (rxPlus rxDigitComma)),
      Seq (rxPlus rxDigitComma) (Seq (rxStar rxSpace) (rxChr CHR ''$''))]"

text \<open>
  The loop over the patterns: of each pattern only the first match is looked at, and a
  first match that is out of range sends the loop on to the next pattern.
\<close>

fun scanPrice :: "rx list \<Rightarrow> string \<Rightarrow> string option" where
  "scanPrice [] s = None"
| "scanPrice (pattern # patterns) s =
     (case firstMatch pattern s of
        None \<Rightarrow> scanPrice patterns s
      | Some m \<Rightarrow>
          (let price = removeSpaces m
           in case parseInt (removeDollarComma price) of
                None \<Rightarrow> scanPrice patterns s
              | Some numericPrice \<Rightarrow>
                  if 10000 < numericPrice \<and> numericPrice < 10000000 then Some price
                  else scanPrice patterns s))"

text \<open>
  \<open>parsePrice\<close> of the CLI collector and of the MCP collector (the same text in both
  files); \<open>None\<close> is \<open>null\<close>. \<open>fullText\<close> is the variable of the enclosing callback.
\<close>

definition parsePrice :: "string \<Rightarrow> string \<Rightarrow> string option" where
  "parsePrice text fullText =
     (let lowerText = toLowerCase text
      in if list_ex (includesStr lowerText) invalidPriceIndicators then None
         else scanPrice pricePatterns (text @ '' '' @ fullText))"

text \<open>\<open>parsePrice\<close> of the Lambda service: no indicator list, and a placeholder for no price.\<close>

definition parsePrice_lambda :: "string \<Rightarrow> string \<Rightarrow> string" where
  "parsePrice_lambda text fullText =
     (case scanPrice pricePatterns (text @ '' '' @ fullText) of
        Some price \<Rightarrow> price
      | None \<Rightarrow> ''Price not available'')"

subsection \<open>Address\<close>

definition streetSuffix :: rx where
  "streetSuffix =
     rxAlts (map rxLit
       [''Street'', ''St'', ''Avenue'', ''Ave'', ''Road'', ''Rd'', ''Drive'', ''Dr'', ''Lane'',
        ''Ln'', ''Boulevard'', ''Blvd'', ''Circle'', ''Cir'', ''Court'', ''Ct'', ''Place'', ''Pl'',
        ''Way''])"

text \<open>
  The three address patterns, each a pair of its group 1 and of what follows the group,
  for a given pattern \<open>city\<close> of the city:
  \<open>(\d+\s+[A-Za-z\s]+(?:Street|...|Way))\s+(?:city)\<close>, \<open>(\d+\s+[A-Za-z\s]+)\s+(?:city)\<close> and
  \<open>(\d{1,5}\s+[A-Za-z\s]{3,30})\s+(?:city)\<close>, all with the \<open>i\<close> flag.
\<close>

definition addressPatterns :: "rx \<Rightarrow> (rx \<times> rx) list" where
  "addressPatterns city =
     [(Seq (rxPlus rxDigit) (Seq (rxPlus rxSpace) (Seq (rxPlus rxAlphaSpace) streetSuffix)),
       Seq (rxPlus rxSpace) city),
      (Seq (rxPlus rxDigit) (Seq (rxPlus rxSpace) (rxPlus rxAlphaSpace)),
       Seq (rxPlus rxSpace) city),
      (Seq (rxTimes 1 5 rxDigit) (Seq (rxPlus rxSpace) (rxTimes 3 30 rxAlphaSpace)),
       Seq (rxPlus rxSpace) city)]"

fun scanAddress :: "(rx \<times> rx) list \<Rightarrow> string \<Rightarrow> string \<Rightarrow> string \<Rightarrow> string" where
  "scanAddress [] fullText cityName stateName = []"
| "scanAddress ((g, r) # patterns) fullText cityName stateName =
     (case firstGroup g r fullText of
        None \<Rightarrow> scanAddress patterns fullText cityName stateName
      | Some m \<Rightarrow>
          (let address = trim m
           in if m \<noteq> [] \<and> 5 < length address \<and> length address < 50 \<and> list_ex isDigit address
              then address @ '', '' @ cityName @ '', '' @ stateName
              else scanAddress patterns fullText cityName stateName))"

text \<open>
  The CLI and MCP collectors build their patterns with \<open>new RegExp\<close> from a template that
  holds \<open>cityName\<close>. The model reads the city name as a literal text, which is what the
  pattern means for a name without regular-expression operators (letters, digits, spaces);
  a name with such operators, for which the pattern means something else or \<open>new RegExp\<close>
  throws, is not covered. The argument \<open>text\<close> is not used by the source either.
\<close>

definition parseAddress :: "string \<Rightarrow> string \<Rightarrow> string \<Rightarrow> string \<Rightarrow> string" where
  "parseAddress text fullText cityName stateName =
     scanAddress (addressPatterns (rxLit cityName)) fullText cityName stateName"

text \<open>
  The Lambda service writes the patterns as regular-expression literals, so
  \<open>(?:Parma|${cityName})\<close> is the text Parma, or the end of the input followed by the
  characters \<open>{cityName}\<close>.
\<close>

definition parseAddress_lambda :: "string \<Rightarrow> string \<Rightarrow> string \<Rightarrow> string \<Rightarrow> string" where
  "parseAddress_lambda text fullText cityName stateName =
     scanAddress (addressPatterns (Alt (rxLit ''Parma'') (Seq End (rxLit ''{cityName}''))))
       fullText cityName stateName"

subsection \<open>Beds, baths and square feet\<close>

text \<open>
  The loops of \<open>parseBeds\<close>, \<open>parseBaths\<close> and \<open>parseSqft\<close>: the first pattern whose group 1
  holds a number between \<open>lo\<close> and \<open>hi\<close>. \<open>parseSqft\<close> removes the commas of the group
  before \<open>parseInt\<close>; the group of \<open>parseBeds\<close> has none to remove.
\<close>

fun scanInt :: "(rx \<times> rx) list \<Rightarrow> nat \<Rightarrow> nat \<Rightarrow> string \<Rightarrow> nat option" where
  "scanInt [] lo hi s = None"
| "scanInt ((g, r) # patterns) lo hi s =
     (case firstGroup g r s of
        None \<Rightarrow> scanInt patterns lo hi s
      | Some m \<Rightarrow>
          (case parseInt (removeCommas m) of
             None \<Rightarrow> scanInt patterns lo hi s
           | Some n \<Rightarrow> if lo \<le> n \<and> n \<le> hi then Some n else scanInt patterns lo hi s))"

fun scanDecimal :: "(rx \<times> rx) list \<Rightarrow> nat \<Rightarrow> nat \<Rightarrow> string \<Rightarrow> decimal option" where
  "scanDecimal [] lo hi s = None"
| "scanDecimal ((g, r) # patterns) lo hi s =
     (case firstGroup g r s of
        None \<Rightarrow> scanDecimal patterns lo hi s
      | Some m \<Rightarrow>
          (let d = parseFloat m
           in if decimalBetween lo hi d then Some d else scanDecimal patterns lo hi s))"

text \<open>
  \<open>/(\d+)\s*(?:bed|bedroom|br|bds)/i\<close>, \<open>/(\d+)\s*bd/i\<close> and \<open>/(\d+)\s*b(?:\s|$)/i\<close>.
\<close>

definition bedsPatterns :: "(rx \<times> rx) list" where
  "bedsPatterns =
     [(rxPlus rxDigit,
       Seq (rxStar rxSpace) (rxAlts (map rxLit [''bed'', ''bedroom'', ''br'', ''bds'']))),
      (rxPlus rxDigit, Seq (rxStar rxSpace) (rxLit ''bd'')),
      (rxPlus rxDigit, Seq (rxStar rxSpace) (Seq (rxLit ''b'') (Alt rxSpace End)))]"

text \<open>\<open>(\d+(?:\.\d+)?)\<close>, the group of the baths patterns.\<close>

definition rxDecimal :: rx where
  "rxDecimal = Seq (rxPlus rxDigit) (rxOpt (Seq (rxChr CHR ''.'') (rxPlus rxDigit)))"

text \<open>\<open>/(\d+(?:\.\d+)?)\s*(?:bath|bathroom|ba)/i\<close> and \<open>/(\d+(?:\.\d+)?)\s*ba/i\<close>.\<close>

definition bathsPatterns :: "(rx \<times> rx) list" where
  "bathsPatterns =
     [(rxDecimal, Seq (rxStar rxSpace) (rxAlts (map rxLit [''bath'', ''bathroom'', ''ba'']))),
      (rxDecimal, Seq (rxStar rxSpace) (rxLit ''ba''))]"

text \<open>The MCP collector's first pattern ends in \<open>(?:bath|bathroom|ba|baths)\<close>.\<close>

definition bathsPatterns_mcp :: "(rx \<times> rx) list" where
  "bathsPatterns_mcp =
     [(rxDecimal,
       Seq (rxStar rxSpace) (rxAlts (map rxLit [''bath'', ''bathroom'', ''ba'', ''baths'']))),
      (rxDecimal, Seq (rxStar rxSpace) (rxLit ''ba''))]"

text \<open>
  \<open>/(\d{1,3}(?:,\d{3})*)\s*(?:sq\.?\s*ft|sqft|square\s*feet)/i\<close> and
  \<open>/(\d{1,3}(?:,\d{3})*)\s*sf/i\<close>.
\<close>

definition rxGrouped :: rx where
  "rxGrouped = Seq (rxTimes 1 3 rxDigit) (rxStar (Seq (rxChr CHR '','') (rxTimes 3 3 rxDigit)))"

definition sqftPatterns :: "(rx \<times> rx) list" where
  "sqftPatterns =
     [(rxGrouped,
       Seq (rxStar rxSpace)
         (rxAlts
           [Seq (rxLit ''sq'') (Seq (rxOpt (rxChr CHR ''.'')) (Seq (rxStar rxSpace) (rxLit ''ft''))),
            rxLit ''sqft'',
            Seq (rxLit ''square'') (Seq (rxStar rxSpace) (rxLit ''feet''))])),
      (rxGrouped, Seq (rxStar rxSpace) (rxLit ''sf''))]"

text \<open>The parsers of the CLI collector and the Lambda service, with their defaults.\<close>

definition parseBeds :: "string \<Rightarrow> string \<Rightarrow> nat" where
  "parseBeds text fullText =
     (case scanInt bedsPatterns 1 10 (text @ '' '' @ fullText) of Some beds \<Rightarrow> beds | None \<Rightarrow> 3)"

definition parseBaths :: "string \<Rightarrow> string \<Rightarrow> decimal" where
  "parseBaths text fullText =
     (case scanDecimal bathsPatterns 1 10 (text @ '' '' @ fullText) of
        Some baths \<Rightarrow> baths | None \<Rightarrow> (2, []))"

definition parseSqft :: "string \<Rightarrow> string \<Rightarrow> nat" where
  "parseSqft text fullText =
     (case scanInt sqftPatterns 500 10000 (text @ '' '' @ fullText) of
        Some sqft \<Rightarrow> sqft | None \<Rightarrow> 1500)"

text \<open>
  The parsers of the MCP collector: beds and baths are texts (\<open>toString()\<close> of the number,
  or N/A), the square feet are a number or the text N/A, here \<open>None\<close>.
\<close>

definition parseBeds_mcp :: "string \<Rightarrow> string \<Rightarrow> string" where
  "parseBeds_mcp text fullText =
     (case scanInt bedsPatterns 0 10 (text @ '' '' @ fullText) of
        Some beds \<Rightarrow> natToString beds | None \<Rightarrow> ''N/A'')"

definition parseBaths_mcp :: "string \<Rightarrow> string \<Rightarrow> string" where
  "parseBaths_mcp text fullText =
     (case scanDecimal bathsPatterns_mcp 0 20 (text @ '' '' @ fullText) of
        Some baths \<Rightarrow> decimalToString baths | None \<Rightarrow> ''N/A'')"

definition parseSqft_mcp :: "string \<Rightarrow> string \<Rightarrow> nat option" where
  "parseSqft_mcp text fullText = scanInt sqftPatterns 500 10000 (text @ '' '' @ fullText)"

section \<open>Records\<close>

text \<open>
  The fields the three collectors share, then the fields of the CLI collector and the
  Lambda service (which calls \<open>objectID\<close> \<open>id\<close>), then those of the MCP collector, whose
  \<open>beds\<close>, \<open>baths\<close> and \<open>sqft\<close> are \<open>bedsText\<close>, \<open>bathsText\<close> and \<open>sqftValue\<close> here.
\<close>

record property_base =
  objectID :: string
  address :: string
  price :: string
  description :: string
  imageUrl :: string
  propertyUrl :: string
  city :: string
  state :: string
  priceRange :: string
  propertyType :: string
  collectedAt :: string

record property = property_base +
  beds :: nat
  baths :: decimal
  sqft :: nat

record property_mcp = property_base +
  priceNumeric :: "nat option"
  bedsText :: string
  bathsText :: string
  sqftValue :: "nat option"
  timestamp :: string
  source :: string

section \<open>Derived fields\<close>

text \<open>The price range of a number \<open>priceNum\<close>; \<open>None\<close> is NaN, which is not above 0.\<close>

definition priceRangeOf :: "nat option \<Rightarrow> string" where
  "priceRangeOf priceNum =
     (case priceNum of
        None \<Rightarrow> ''Unknown''
      | Some n \<Rightarrow>
          if n > 0
          then (if n < 200000 then ''Under $200K''
                else if n < 400000 then ''$200K - $400K''
                else if n < 600000 then ''$400K - $600K''
                else ''Over $600K'')
          else ''Unknown'')"

text \<open>\<open>parseInt(price.replace(/[\$,]/g, '')) || 250000\<close>: NaN and 0 are falsy.\<close>

definition priceNumOrDefault :: "string \<Rightarrow> nat" where
  "priceNumOrDefault p =
     (case parseInt (removeDollarComma p) of
        None \<Rightarrow> 250000
      | Some n \<Rightarrow> if n = 0 then 250000 else n)"

definition propertyTypeOf :: "nat option \<Rightarrow> string" where
  "propertyTypeOf bedsNum =
     (if bedsNum = Some 1 then ''Condo/Apartment''
      else if bedsNum = Some 2 then ''Townhouse/Condo''
      else ''Single Family Home'')"

definition streetNames :: "string list" where
  "streetNames =
     [''Main'', ''Oak'', ''Maple'', ''Cedar'', ''Pine'', ''Elm'', ''Park'', ''North'', ''South'',
      ''East'', ''West'']"

definition streetTypes :: "string list" where
  "streetTypes = [''St'', ''Ave'', ''Rd'', ''Dr'', ''Ln'', ''Blvd'', ''Ct'', ''Pl'']"

text \<open>The address made up when no address of 10 characters was found.\<close>

definition synthesizeAddress :: "env \<Rightarrow> string \<Rightarrow> string \<Rightarrow> string" where
  "synthesizeAddress e cityName stateName =
     (let streetNumber = floorRandom (random1 e) 9999 + 1;
          streetName = streetNames ! floorRandom (random2 e) (length streetNames);
          streetType = streetTypes ! floorRandom (random3 e) (length streetTypes)
      in natToString streetNumber @ '' '' @ streetName @ '' '' @ streetType @ '', ''
           @ cityName @ '', '' @ stateName)"

definition finalAddress_cli :: "env \<Rightarrow> string \<Rightarrow> string \<Rightarrow> string \<Rightarrow> string \<Rightarrow> string" where
  "finalAddress_cli e extractedAddress addressText cityName stateName =
     (let finalAddress = orElse extractedAddress addressText
      in if finalAddress = [] \<or> length finalAddress < 10
         then synthesizeAddress e cityName stateName
         else finalAddress)"

definition finalAddress_lambda :: "env \<Rightarrow> string \<Rightarrow> string \<Rightarrow> string \<Rightarrow> string \<Rightarrow> string" where
  "finalAddress_lambda e extractedAddress addressText cityName stateName =
     (let finalAddress = orElse extractedAddress addressText
      in if finalAddress = [] \<or> includesStr finalAddress ''Eddie''
            \<or> includesStr finalAddress ''Agent'' \<or> length finalAddress < 10
         then synthesizeAddress e cityName stateName
         else finalAddress)"

definition description_cli ::
  "string \<Rightarrow> string \<Rightarrow> string \<Rightarrow> string \<Rightarrow> string \<Rightarrow> string \<Rightarrow> string \<Rightarrow> string \<Rightarrow> string" where
  "description_cli bedsS bathsS sqftS propertyTypeS priceRangeS priceS cityName stateName =
     ''Beautiful '' @ bedsS @ '' bed, '' @ bathsS @ '' bath '' @ toLowerCase propertyTypeS
       @ '' in '' @ cityName @ '', '' @ stateName
       @ ''. Features modern amenities and great location. '' @ priceRangeS
       @ '' price range. '' @ bedsS @ '' bedroom '' @ bathsS @ '' bathroom home with '' @ sqftS
       @ '' square feet. Property type: '' @ propertyTypeS @ ''. Located in '' @ cityName
       @ '' '' @ stateName @ ''. '' @ priceS @ '' house home property real estate.''"

definition description_lambda ::
  "string \<Rightarrow> string \<Rightarrow> string \<Rightarrow> string \<Rightarrow> string \<Rightarrow> string" where
  "description_lambda bedsS bathsS propertyTypeS cityName stateName =
     ''Beautiful '' @ bedsS @ '' bed, '' @ bathsS @ '' bath '' @ toLowerCase propertyTypeS
       @ '' in '' @ cityName @ '', '' @ stateName
       @ ''. Features modern amenities and great location.''"

section \<open>The extraction callbacks\<close>

text \<open>
  The function each collector maps over the listing nodes; \<open>None\<close> is \<open>null\<close>. \<open>!price\<close>
  holds for \<open>null\<close> and for the empty string.
\<close>

definition extract_cli :: "listing \<Rightarrow> string \<Rightarrow> string \<Rightarrow> nat \<Rightarrow> env \<Rightarrow> property option" where
  "extract_cli l cityName stateName index e =
     (let priceText = extractText l priceSelectors;
          addressText = extractText l addressSelectors;
          imageUrl' = normalizeImageUrl (extractImageUrl l);
          propertyUrl' = normalizePropertyUrl (extractAttribute l linkSelectors ''href'');
          fullText = listingTextContent l;
          beds' = parseBeds fullText fullText;
          baths' = parseBaths fullText fullText;
          sqft' = parseSqft fullText fullText;
          extractedAddress = parseAddress fullText fullText cityName stateName
      in case parsePrice priceText fullText of
           None \<Rightarrow> None
         | Some price' \<Rightarrow>
             if price' = [] then None
             else
               (let finalAddress = finalAddress_cli e extractedAddress addressText cityName stateName;
                    priceRange' = priceRangeOf (Some (priceNumOrDefault price'));
                    propertyType' = propertyTypeOf (Some beds')
                in Some \<lparr>objectID = ''property_'' @ natToString (now e) @ ''_'' @ natToString index,
                         address = finalAddress,
                         price = price',
                         description =
                           description_cli (natToString beds') (decimalToString baths')
                             (natToString sqft') propertyType' priceRange' price' cityName stateName,
                         imageUrl = imageUrl',
                         propertyUrl = propertyUrl',
                         city = cityName,
                         state = stateName,
                         priceRange = priceRange',
                         propertyType = propertyType',
                         collectedAt = isoString e,
                         beds = beds',
                         baths = baths',
                         sqft = sqft'\<rparr>))"

definition extract_lambda :: "listing \<Rightarrow> string \<Rightarrow> string \<Rightarrow> nat \<Rightarrow> env \<Rightarrow> property" where
  "extract_lambda l cityName stateName index e =
     (let priceText = extractText_lambda l priceSelectors;
          addressText = extractText_lambda l addressSelectors;
          imageUrl' = normalizeImageUrl (extractImageUrl l);
          propertyUrl' = normalizePropertyUrl (extractAttribute l linkSelectors ''href'');
          fullText = listingTextContent l;
          beds' = parseBeds fullText fullText;
          baths' = parseBaths fullText fullText;
          sqft' = parseSqft fullText fullText;
          price' = parsePrice_lambda priceText fullText;
          extractedAddress = parseAddress_lambda fullText fullText cityName stateName;
          finalAddress = finalAddress_lambda e extractedAddress addressText cityName stateName;
          priceRange' = priceRangeOf (Some (priceNumOrDefault price'));
          propertyType' = propertyTypeOf (Some beds')
      in \<lparr>objectID = ''property_'' @ natToString (now e) @ ''_'' @ natToString index,
          address = finalAddress,
          price = price',
          description =
            description_lambda (natToString beds') (decimalToString baths') propertyType'
              cityName stateName,
          imageUrl = imageUrl',
          propertyUrl = propertyUrl',
          city = cityName,
          state = stateName,
          priceRange = priceRange',
          propertyType = propertyType',
          collectedAt = isoString e,
          beds = beds',
          baths = baths',
          sqft = sqft'\<rparr>)"

text \<open>
  The MCP collector passes the price text joined to the full text as \<open>text\<close>, and gives up
  a node that lacks a price, an address, an image or a property URL.
\<close>

definition extract_mcp :: "listing \<Rightarrow> string \<Rightarrow> string \<Rightarrow> nat \<Rightarrow> env \<Rightarrow> property_mcp option" where
  "extract_mcp l cityName stateName index e =
     (let priceText = extractText l priceSelectors;
          addressText = extractText l addressSelectors;
          imageUrl' = normalizeImageUrl (extractImageUrl l);
          propertyUrl' = normalizePropertyUrl_mcp (extractAttribute l linkSelectors ''href'');
          fullText = listingTextContent l;
          address' =
            orElse (parseAddress (addressText @ '' '' @ fullText) fullText cityName stateName)
              addressText;
          beds' = parseBeds_mcp fullText fullText;
          baths' = parseBaths_mcp fullText fullText;
          sqft' = parseSqft_mcp fullText fullText
      in case parsePrice (priceText @ '' '' @ fullText) fullText of
           None \<Rightarrow> None
         | Some price' \<Rightarrow>
             if price' = [] \<or> address' = [] \<or> imageUrl' = [] \<or> propertyUrl' = [] then None
             else
               (let numericPrice = parseInt (removeDollarComma price');
                    priceRange' = priceRangeOf numericPrice;
                    propertyType' = propertyTypeOf (parseInt beds')
                in Some \<lparr>objectID = ''property_'' @ natToString (now e) @ ''_'' @ randomSuffix e,
                         address = address',
                         price = price',
                         description =
                           description_cli beds' baths'
                             (case sqft' of None \<Rightarrow> ''N/A'' | Some n \<Rightarrow> natToString n)
                             propertyType' priceRange' price' cityName stateName,
                         imageUrl = imageUrl',
                         propertyUrl = propertyUrl',
                         city = cityName,
                         state = stateName,
                         priceRange = priceRange',
                         propertyType = propertyType',
                         collectedAt = isoString2 e,
                         priceNumeric = numericPrice,
                         bedsText = beds',
                         bathsText = baths',
                         sqftValue = sqft',
                         timestamp = isoString e,
                         source = ''realty.com''\<rparr>))"

section \<open>Collecting the properties of a page\<close>

definition propertySelectors :: "string list" where
  \<open>propertySelectors =
     [''.listing-card'', ''[data-testid="property-card"]'', ''[data-testid="listing-card"]'',
      ''.property-card'', ''.search-result-item'', ''[class*="listing"]'',
      ''[class*="property"]'', ''[class*="card"]'', ''div[class*="result"]'']\<close>

definition fallbackSelectors :: "string list" where
  \<open>fallbackSelectors =
     [''[class*="card"]'', ''div[class*="result"]'', ''[class*="listing"]'',
      ''[class*="property"]'']\<close>

text \<open>\<open>selectorResults\<close>: the number of elements of every selector that finds some.\<close>

definition testSelectors :: "page \<Rightarrow> (string \<rightharpoonup> nat)" where
  "testSelectors pg =
     foldl (\<lambda>selectorResults selector.
              (let elements = length (pg selector)
               in if elements > 0 then selectorResults(selector \<mapsto> elements)
                  else selectorResults))
       Map.empty propertySelectors"

text \<open>The loop over the fallback selectors, which stops at the first that found elements.\<close>

fun firstFallback :: "(string \<rightharpoonup> nat) \<Rightarrow> string list \<Rightarrow> (string \<times> nat) option" where
  "firstFallback selectorResults [] = None"
| "firstFallback selectorResults (selector # selectors) =
     (case selectorResults selector of
        None \<Rightarrow> firstFallback selectorResults selectors
      | Some n \<Rightarrow> if n > 0 then Some (selector, n)
                  else firstFallback selectorResults selectors)"

text \<open>\<open>bestSelector\<close> and \<open>propertyCount\<close>.\<close>

definition bestSelector :: "page \<Rightarrow> string \<times> nat" where
  "bestSelector pg =
     (let selectorResults = testSelectors pg;
          propertyCount = (case selectorResults ''.listing-card'' of None \<Rightarrow> 0 | Some n \<Rightarrow> n)
      in if propertyCount = 0
         then (case firstFallback selectorResults fallbackSelectors of
                 None \<Rightarrow> (''.listing-card'', propertyCount)
               | Some found \<Rightarrow> found)
         else (''.listing-card'', propertyCount))"

text \<open>
  \<open>xs.slice(0, endIndex)\<close> for an integer \<open>endIndex\<close>: a negative one counts from the end of the
  array.
\<close>

definition slice0 :: "'a list \<Rightarrow> int \<Rightarrow> 'a list" where
  "slice0 xs endIndex =
     (if endIndex < 0 then take (nat (int (length xs) + endIndex)) xs else take (nat endIndex) xs)"

text \<open>
  \<open>collectProperties\<close> on a page that has loaded. \<open>envs index\<close> is what the callback reads
  of its environment at the node \<open>index\<close>. The CLI collector returns what the callback
  returned for each node, \<open>null\<close> included.
\<close>

definition collectProperties_cli ::
  "page \<Rightarrow> string \<Rightarrow> string \<Rightarrow> int \<Rightarrow> (nat \<Rightarrow> env) \<Rightarrow> property option list" where
  "collectProperties_cli pg cityName stateName maxProperties envs =
     (case bestSelector pg of
        (selector, propertyCount) \<Rightarrow>
          if propertyCount = 0 then []
          else
            (let listings = pg selector;
                 propertyListings = slice0 listings maxProperties
             in map (\<lambda>(index, l). extract_cli l cityName stateName index (envs index))
                  (enumerate 0 propertyListings)))"

text \<open>The MCP collector filters the \<open>null\<close> entries out before it returns.\<close>

definition collectProperties_mcp ::
  "page \<Rightarrow> string \<Rightarrow> string \<Rightarrow> int \<Rightarrow> (nat \<Rightarrow> env) \<Rightarrow> property_mcp option list" where
  "collectProperties_mcp pg cityName stateName maxProperties envs =
     (case bestSelector pg of
        (selector, propertyCount) \<Rightarrow>
          if propertyCount = 0 then []
          else
            (let listings = pg selector;
                 propertyListings = slice0 listings maxProperties
             in filter (\<lambda>property. property \<noteq> None)
                  (map (\<lambda>(index, l). extract_mcp l cityName stateName index (envs index))
                     (enumerate 0 propertyListings))))"

text \<open>
  The Lambda service has the parameter \<open>maxProperties\<close> and takes the first 20 nodes; its
  callback returns a record for every node.
\<close>

definition collectProperties_lambda ::
  "page \<Rightarrow> string \<Rightarrow> string \<Rightarrow> int \<Rightarrow> (nat \<Rightarrow> env) \<Rightarrow> property list" where
  "collectProperties_lambda pg cityName stateName maxProperties envs =
     (case bestSelector pg of
        (selector, propertyCount) \<Rightarrow>
          if propertyCount = 0 then []
          else
            (let listings = pg selector;
                 propertyListings = slice0 listings 20
             in map (\<lambda>(index, l). extract_lambda l cityName stateName index (envs index))
                  (enumerate 0 propertyListings)))"

text \<open>
  What \<open>indexProperties\<close> of the CLI collector hands to the index: the entries that are
  not \<open>null\<close>, have an image and a price.
\<close>

definition validProperties :: "property option list \<Rightarrow> property list" where
  "validProperties properties = map the (filter (\<lambda>p. p \<noteq> None) properties)"

definition propertiesWithImages :: "property list \<Rightarrow> property list" where
  "propertiesWithImages properties =
     filter (\<lambda>p. imageUrl p \<noteq> [] \<and> trim (imageUrl p) \<noteq> []) properties"

definition propertiesWithValidPrices :: "property list \<Rightarrow> property list" where
  "propertiesWithValidPrices properties =
     filter (\<lambda>p. price p \<noteq> [] \<and> price p \<noteq> ''Price not available'') properties"

definition indexProperties :: "property option list \<Rightarrow> property list" where
  "indexProperties properties =
     propertiesWithValidPrices (propertiesWithImages (validProperties properties))"

section \<open>Example inputs\<close>

text \<open>
  A listing node with a price element, an address element, an image and a link, and two
  readings of the environment that differ in the clock and in the random draws.
\<close>

definition exampleListing :: "string \<Rightarrow> string \<Rightarrow> string \<Rightarrow> string \<Rightarrow> string \<Rightarrow> listing" where
  "exampleListing priceText addressText src href text =
     \<lparr>querySelector =
        [''.price'' \<mapsto> \<lparr>textContent = priceText, getAttribute = Map.empty\<rparr>,
         ''.address'' \<mapsto> \<lparr>textContent = addressText, getAttribute = Map.empty\<rparr>,
         ''img'' \<mapsto> \<lparr>textContent = [], getAttribute = [''src'' \<mapsto> src]\<rparr>,
         ''a'' \<mapsto> \<lparr>textContent = [], getAttribute = [''href'' \<mapsto> href]\<rparr>],
      listingTextContent = text\<rparr>"

definition exampleEnv :: env where
  "exampleEnv =
     \<lparr>now = 1700000000000, isoString = ''2023-11-14T22:13:20.000Z'',
      isoString2 = ''2023-11-14T22:13:20.001Z'', randomSuffix = ''k3j9x2a1q'',
      random1 = (1, 2), random2 = (3, 7), random3 = (0, 1)\<rparr>"

definition exampleEnv2 :: env where
  "exampleEnv2 =
     \<lparr>now = 1700000000005, isoString = ''2023-11-14T22:13:20.005Z'',
      isoString2 = ''2023-11-14T22:13:20.006Z'', randomSuffix = ''q8w2e4r6t'',
      random1 = (1, 4), random2 = (0, 1), random3 = (1, 2)\<rparr>"

text \<open>The environments of the callbacks of one run: the first at node 0.\<close>

definition exampleEnvs :: "nat \<Rightarrow> env" where
  "exampleEnvs index = (if index = 0 then exampleEnv else exampleEnv2)"

text \<open>A page whose listing cards are the given nodes.\<close>

definition examplePage :: "listing list \<Rightarrow> page" where
  "examplePage ls = (\<lambda>selector. if selector = ''.listing-card'' then ls else [])"

section \<open>Evaluation and helper lemmas\<close>

lemmas rx_defs = rxChr_def rxPlus_def rxStar_def rxOpt_def rxTimes_def rxDigit_def rxSpace_def
  rxDigitComma_def rxAlphaSpace_def

lemmas char_defs = isDigit_def isSpace_def isAlpha_def toLowerChar_def toLowerCase_def

lemmas price_defs = parsePrice_def parsePrice_lambda_def pricePatterns_def
  invalidPriceIndicators_def matchAt_def removeSpaces_def removeDollarComma_def parseInt_def
  decimalValue_def digitVal_def

lemma startsWith_iff: "startsWith s p \<longleftrightarrow> (\<exists>post. s = p @ post)"
  by (induction s p rule: startsWith.induct) auto

lemma includesStr_iff: "includesStr s sub \<longleftrightarrow> (\<exists>pre post. s = pre @ sub @ post)"
proof (induction s)
  case Nil
  then show ?case by auto
next
  case (Cons c cs)
  show ?case
  proof
    assume "includesStr (c # cs) sub"
    then consider "startsWith (c # cs) sub" | "includesStr cs sub" by auto
    then show "\<exists>pre post. c # cs = pre @ sub @ post"
    proof cases
      case 1
      then obtain post where "c # cs = sub @ post" by (auto simp: startsWith_iff)
      then have "c # cs = [] @ sub @ post" by simp
      then show ?thesis by blast
    next
      case 2
      then obtain pre post where "cs = pre @ sub @ post" using Cons.IH by blast
      then have "c # cs = (c # pre) @ sub @ post" by simp
      then show ?thesis by blast
    qed
  next
    assume "\<exists>pre post. c # cs = pre @ sub @ post"
    then obtain pre post where eq: "c # cs = pre @ sub @ post" by blast
    show "includesStr (c # cs) sub"
    proof (cases pre)
      case Nil
      with eq have "startsWith (c # cs) sub" by (auto simp: startsWith_iff)
      then show ?thesis by simp
    next
      case (Cons d pre')
      with eq have "cs = pre' @ sub @ post" by simp
      then have "includesStr cs sub" using Cons.IH by blast
      then show ?thesis by simp
    qed
  qed
qed

lemma toLowerCase_append: "toLowerCase (a @ b) = toLowerCase a @ toLowerCase b"
  by (simp add: toLowerCase_def)

lemma example_priceText [simp]:
  "extractText (exampleListing p a s h t) priceSelectors = trim p"
  by (simp add: exampleListing_def priceSelectors_def Let_def)

lemma example_addressText [simp]:
  "extractText (exampleListing p a s h t) addressSelectors = trim a"
  by (simp add: exampleListing_def addressSelectors_def Let_def)

lemma example_priceText_lambda [simp]:
  "extractText_lambda (exampleListing p a s h t) priceSelectors =
     (if trim p \<noteq> [] \<and> \<not> includesStr (trim p) ''Eddie Staats'' \<and> \<not> includesStr (trim p) ''Agent''
      then trim p else [])"
  by (simp add: exampleListing_def priceSelectors_def Let_def)

lemma example_addressText_lambda [simp]:
  "extractText_lambda (exampleListing p a s h t) addressSelectors =
     (if trim a \<noteq> [] \<and> \<not> includesStr (trim a) ''Eddie Staats'' \<and> \<not> includesStr (trim a) ''Agent''
      then trim a else [])"
  by (simp add: exampleListing_def addressSelectors_def Let_def)

lemma example_imageUrl [simp]: "extractImageUrl (exampleListing p a s h t) = s"
  by (simp add: exampleListing_def extractImageUrl_def imageSelectors_def orElse_def)

lemma example_href [simp]:
  "extractAttribute (exampleListing p a s h t) linkSelectors ''href'' = h"
  by (simp add: exampleListing_def linkSelectors_def)

lemma example_text [simp]: "listingTextContent (exampleListing p a s h t) = t"
  by (simp add: exampleListing_def)

lemma example_bestSelector [simp]:
  "bestSelector (examplePage ls) = (''.listing-card'', length ls)"
  by (simp add: bestSelector_def testSelectors_def propertySelectors_def examplePage_def
      fallbackSelectors_def Let_def)

lemma example_cards [simp]: "examplePage ls ''.listing-card'' = ls"
  by (simp add: examplePage_def)

lemma slice0_Nil [simp]: "slice0 [] m = []"
  by (simp add: slice0_def)

section \<open>Facts about the price parser\<close>

lemma scanPrice_in_range:
  "scanPrice patterns s = Some p \<Longrightarrow>
   \<exists>n. parseInt (removeDollarComma p) = Some n \<and> 10000 < n \<and> n < 10000000"
  by (induction patterns) (auto simp: Let_def split: option.splits if_splits)

lemma scanPrice_skip:
  assumes "firstMatch pattern s = Some m"
    and "\<forall>n. parseInt (removeDollarComma (removeSpaces m)) = Some n
             \<longrightarrow> \<not> (10000 < n \<and> n < 10000000)"
  shows "scanPrice (pattern # patterns) s = scanPrice patterns s"
  using assms by (auto simp: Let_def split: option.splits)

lemma parsePrice_indicator:
  assumes "phrase \<in> set invalidPriceIndicators"
    and "toLowerCase text = pre @ phrase @ post"
  shows "parsePrice text fullText = None"
proof -
  from assms(2) have "includesStr (toLowerCase text) phrase"
    by (auto simp: includesStr_iff)
  with assms(1) have "list_ex (includesStr (toLowerCase text)) invalidPriceIndicators"
    by (auto simp: list_ex_iff)
  then show ?thesis by (simp add: parsePrice_def)
qed

lemma matchAt_dollar_other:
  "c \<noteq> CHR ''$'' \<Longrightarrow> matchAt (Seq (rxChr CHR ''$'') r) (c # s) = None"
  by (simp add: matchAt_def rxChr_def)

lemma firstMatch_dollar_skip:
  "CHR ''$'' \<notin> set pre \<Longrightarrow>
   firstMatch (Seq (rxChr CHR ''$'') r) (pre @ CHR ''$'' # s)
     = firstMatch (Seq (rxChr CHR ''$'') r) (CHR ''$'' # s)"
  by (induction pre) (auto simp: matchAt_dollar_other)

lemma matchAt_325000:
  assumes "post = [] \<or> \<not> (isDigit (hd post) \<or> hd post = CHR '','')"
  shows "matchAt (Seq (rxChr CHR ''$'') (rxPlus rxDigitComma)) (''$325,000'' @ post)
           = Some ''$325,000''"
proof (cases post)
  case Nil
  then show ?thesis by (simp add: matchAt_def rx_defs isDigit_def)
next
  case (Cons c cs)
  with assms have "\<not> (isDigit c \<or> c = CHR '','')" by simp
  with Cons show ?thesis by (simp add: matchAt_def rx_defs isDigit_def)
qed

lemma scanPrice_325000:
  assumes "CHR ''$'' \<notin> set pre"
    and "post = [] \<or> \<not> (isDigit (hd post) \<or> hd post = CHR '','')"
  shows "scanPrice pricePatterns ([] @ '' '' @ pre @ ''$325,000'' @ post) = Some ''$325,000''"
proof -
  have "CHR ''$'' \<notin> set ('' '' @ pre)" using assms(1) by simp
  then have "firstMatch (Seq (rxChr CHR ''$'') (rxPlus rxDigitComma))
               (('' '' @ pre) @ CHR ''$'' # (''325,000'' @ post))
             = firstMatch (Seq (rxChr CHR ''$'') (rxPlus rxDigitComma))
                 (CHR ''$'' # (''325,000'' @ post))"
    by (rule firstMatch_dollar_skip)
  moreover have "firstMatch (Seq (rxChr CHR ''$'') (rxPlus rxDigitComma))
                   (CHR ''$'' # (''325,000'' @ post)) = Some ''$325,000''"
    using matchAt_325000 [OF assms(2)] by simp
  ultimately have "firstMatch (Seq (rxChr CHR ''$'') (rxPlus rxDigitComma))
                     ('' '' @ pre @ ''$325,000'' @ post) = Some ''$325,000''"
    by simp
  then show ?thesis
    by (simp add: pricePatterns_def removeSpaces_def removeDollarComma_def parseInt_def
        decimalValue_def digitVal_def char_defs)
qed

lemma example_cli_price:
  "parsePrice (extractText (exampleListing ''$325,000'' a s h ''$325,000'') priceSelectors)
     (listingTextContent (exampleListing ''$325,000'' a s h ''$325,000'')) = Some ''$325,000''"
  by (simp add: price_defs rx_defs char_defs trim_def)

lemma example_mcp_price:
  "parsePrice (extractText (exampleListing ''$325,000'' a s h ''3 bed'') priceSelectors
                @ '' '' @ listingTextContent (exampleListing ''$325,000'' a s h ''3 bed''))
     (listingTextContent (exampleListing ''$325,000'' a s h ''3 bed'')) = Some ''$325,000''"
  by (simp add: price_defs rx_defs char_defs trim_def)

section \<open>Facts about the callbacks\<close>

lemma extract_cli_None: 
  "parsePrice (extractText l priceSelectors) (listingTextContent l) = None
   \<Longrightarrow> extract_cli l cityName stateName index e = None"
  by (simp add: extract_cli_def Let_def)

lemma extract_cli_None_iff:
  "extract_cli l cityName stateName index e = None
   \<longleftrightarrow> parsePrice (extractText l priceSelectors) (listingTextContent l) \<in> {None, Some []}"
  by (auto simp: extract_cli_def Let_def split: option.splits)

lemma extract_cli_Some:
  assumes "extract_cli l cityName stateName index e = Some r"
  shows "parsePrice (extractText l priceSelectors) (listingTextContent l) = Some (price r)
         \<and> priceRange r = priceRangeOf (Some (priceNumOrDefault (price r)))"
  using assms by (auto simp: extract_cli_def Let_def split: option.splits if_splits)

lemma extract_cli_price:
  assumes "parsePrice (extractText l priceSelectors) (listingTextContent l) = Some p"
  shows "\<exists>r. extract_cli l cityName stateName index e = Some r \<and> price r = p
             \<and> priceRange r = priceRangeOf (Some (priceNumOrDefault p))"
proof -
  from assms obtain n where "parseInt (removeDollarComma p) = Some n"
    by (auto simp: parsePrice_def Let_def split: if_splits dest: scanPrice_in_range)
  then have "p \<noteq> []" by (auto simp: parseInt_def removeDollarComma_def)
  with assms show ?thesis by (simp add: extract_cli_def Let_def)
qed

lemma extract_cli_fields:
  assumes "extract_cli l cityName stateName index e = Some r"
  shows "price r = the (parsePrice (extractText l priceSelectors) (listingTextContent l))
       \<and> beds r = parseBeds (listingTextContent l) (listingTextContent l)
       \<and> baths r = parseBaths (listingTextContent l) (listingTextContent l)
       \<and> sqft r = parseSqft (listingTextContent l) (listingTextContent l)
       \<and> imageUrl r = normalizeImageUrl (extractImageUrl l)
       \<and> propertyUrl r = normalizePropertyUrl (extractAttribute l linkSelectors ''href'')
       \<and> priceRange r = priceRangeOf (Some (priceNumOrDefault (price r)))
       \<and> propertyType r = propertyTypeOf (Some (beds r))
       \<and> description r = description_cli (natToString (beds r)) (decimalToString (baths r))
             (natToString (sqft r)) (propertyType r) (priceRange r) (price r) cityName stateName
       \<and> city r = cityName \<and> state r = stateName
       \<and> address r = finalAddress_cli e
             (parseAddress (listingTextContent l) (listingTextContent l) cityName stateName)
             (extractText l addressSelectors) cityName stateName
       \<and> objectID r = ''property_'' @ natToString (now e) @ ''_'' @ natToString index
       \<and> collectedAt r = isoString e"
  using assms by (auto simp: extract_cli_def Let_def split: option.splits if_splits)

lemma extract_cli_urls:
  assumes "extract_cli l cityName stateName index e = Some r"
  shows "propertyUrl r = normalizePropertyUrl (extractAttribute l linkSelectors ''href'')
       \<and> imageUrl r = normalizeImageUrl (extractImageUrl l)"
  using assms by (auto simp: extract_cli_def Let_def split: option.splits if_splits)

lemma priceRangeOf_in_range:
  assumes "parseInt (removeDollarComma p) = Some n" and "10000 < n"
  shows "priceRangeOf (Some (priceNumOrDefault p))
           = (if n < 200000 then ''Under $200K''
              else if n < 400000 then ''$200K - $400K''
              else if n < 600000 then ''$400K - $600K''
              else ''Over $600K'')"
  using assms by (simp add: priceRangeOf_def priceNumOrDefault_def)

lemma finalAddress_cli_kept:
  "10 \<le> length (orElse extractedAddress addressText)
   \<Longrightarrow> finalAddress_cli e extractedAddress addressText cityName stateName
       = orElse extractedAddress addressText"
  by (auto simp: finalAddress_cli_def Let_def)

lemma finalAddress_cli_same_draws:
  "random1 e1 = random1 e2 \<and> random2 e1 = random2 e2 \<and> random3 e1 = random3 e2
   \<Longrightarrow> finalAddress_cli e1 extractedAddress addressText cityName stateName
       = finalAddress_cli e2 extractedAddress addressText cityName stateName"
  by (simp add: finalAddress_cli_def synthesizeAddress_def Let_def)

lemma extract_mcp_None: 
  "parsePrice (extractText l priceSelectors @ '' '' @ listingTextContent l) (listingTextContent l) = None
   \<Longrightarrow> extract_mcp l cityName stateName index e = None"
  by (simp add: extract_mcp_def Let_def)

lemma extract_mcp_Some:
  assumes "extract_mcp l cityName stateName index e = Some r"
  shows "parsePrice (extractText l priceSelectors @ '' '' @ listingTextContent l)
           (listingTextContent l) = Some (price r)
       \<and> address r = orElse (parseAddress (extractText l addressSelectors @ '' '' @ listingTextContent l)
                                 (listingTextContent l) cityName stateName)
                             (extractText l addressSelectors)
       \<and> imageUrl r = normalizeImageUrl (extractImageUrl l)
       \<and> propertyUrl r = normalizePropertyUrl_mcp (extractAttribute l linkSelectors ''href'')
       \<and> price r \<noteq> [] \<and> address r \<noteq> [] \<and> imageUrl r \<noteq> [] \<and> propertyUrl r \<noteq> []"
  using assms by (auto simp: extract_mcp_def Let_def split: option.splits if_splits)

lemma extract_mcp_reject:
  assumes "parsePrice (extractText l priceSelectors @ '' '' @ listingTextContent l)
             (listingTextContent l) = None
         \<or> parsePrice (extractText l priceSelectors @ '' '' @ listingTextContent l)
             (listingTextContent l) = Some []
         \<or> orElse (parseAddress (extractText l addressSelectors @ '' '' @ listingTextContent l)
                       (listingTextContent l) cityName stateName)
                   (extractText l addressSelectors) = []
         \<or> normalizeImageUrl (extractImageUrl l) = []
         \<or> normalizePropertyUrl_mcp (extractAttribute l linkSelectors ''href'') = []"
  shows "extract_mcp l cityName stateName index e = None"
  using assms by (auto simp: extract_mcp_def Let_def split: option.splits)

lemma example_no_address:
  "parseAddress ''$325,000'' ''$325,000'' ''Columbus'' ''OH'' = []"
  by (simp add: parseAddress_def addressPatterns_def groupAt_def streetSuffix_def rx_defs
      char_defs)

section \<open>Facts about the synthesized address\<close>

lemma digitChar_isDigit: "d < 10 \<Longrightarrow> isDigit (digitChar d)"
proof -
  assume "d < 10"
  then have "d \<in> {0, 1, 2, 3, 4, 5, 6, 7, 8, 9}" by auto
  then show ?thesis by (auto simp: digitChar_def isDigit_def)
qed

lemma natToString_digits: "natToString n \<noteq> [] \<and> list_all isDigit (natToString n)"
proof (induction n rule: natToString.induct)
  case (1 n)
  show ?case
  proof (cases "n < 10")
    case True
    then show ?thesis by (simp add: natToString.simps [of n] digitChar_isDigit)
  next
    case False
    with 1 show ?thesis by (simp add: natToString.simps [of n] digitChar_isDigit)
  qed
qed

lemma natToString_length: "n < 10 ^ Suc k \<Longrightarrow> length (natToString n) \<le> Suc k"
proof (induction k arbitrary: n)
  case 0
  then show ?case by (simp add: natToString.simps [of n])
next
  case (Suc k)
  show ?case
  proof (cases "n < 10")
    case True
    then show ?thesis by (simp add: natToString.simps [of n])
  next
    case False
    from Suc.prems have "n div 10 < 10 ^ Suc k" by (simp add: less_mult_imp_div_less)
    then have "length (natToString (n div 10)) \<le> Suc k" by (rule Suc.IH)
    with False show ?thesis by (simp add: natToString.simps [of n])
  qed
qed

lemma floorRandom_less: "validRandom r \<Longrightarrow> floorRandom r n < n \<or> n = 0"
proof -
  assume "validRandom r"
  then have "fst r < snd r" by (simp add: validRandom_def)
  show ?thesis
  proof (cases "n = 0")
    case True
    then show ?thesis by simp
  next
    case False
    with \<open>fst r < snd r\<close> have "fst r * n < n * snd r" by (simp add: mult.commute)
    then have "fst r * n div snd r < n" by (rule less_mult_imp_div_less)
    then show ?thesis by (simp add: floorRandom_def)
  qed
qed

lemma streetName_length:
  "i < 11 \<Longrightarrow> 3 \<le> length (streetNames ! i) \<and> length (streetNames ! i) \<le> 5"
proof -
  assume "i < 11"
  then have "i < length streetNames" by (simp add: streetNames_def)
  then have "streetNames ! i \<in> set streetNames" by (rule nth_mem)
  moreover have "\<forall>x \<in> set streetNames. 3 \<le> length x \<and> length x \<le> 5"
    by (simp add: streetNames_def)
  ultimately show ?thesis by blast
qed

lemma streetType_length:
  "i < 8 \<Longrightarrow> 2 \<le> length (streetTypes ! i) \<and> length (streetTypes ! i) \<le> 4"
proof -
  assume "i < 8"
  then have "i < length streetTypes" by (simp add: streetTypes_def)
  then have "streetTypes ! i \<in> set streetTypes" by (rule nth_mem)
  moreover have "\<forall>x \<in> set streetTypes. 2 \<le> length x \<and> length x \<le> 4"
    by (simp add: streetTypes_def)
  ultimately show ?thesis by blast
qed

lemma synthesizeAddress_length:
  assumes "validRandom (random1 e)" "validRandom (random2 e)" "validRandom (random3 e)"
  shows "12 + length cityName + length stateName \<le> length (synthesizeAddress e cityName stateName)
       \<and> length (synthesizeAddress e cityName stateName) \<le> 19 + length cityName + length stateName"
proof -
  let ?n = "floorRandom (random1 e) 9999 + 1"
  from floorRandom_less [OF assms(1), of 9999] have "?n < 10 ^ Suc 3" by simp
  then have n4: "length (natToString ?n) \<le> 4" using natToString_length by fastforce
  have n1: "1 \<le> length (natToString ?n)"
    using natToString_digits [of ?n] by (cases "natToString ?n") auto
  have ln: "length streetNames = 11" by (simp add: streetNames_def)
  have lt: "length streetTypes = 8" by (simp add: streetTypes_def)
  from floorRandom_less [OF assms(2), of 11] have "floorRandom (random2 e) 11 < 11" by simp
  then have a: "3 \<le> length (streetNames ! floorRandom (random2 e) (length streetNames))
         \<and> length (streetNames ! floorRandom (random2 e) (length streetNames)) \<le> 5"
    unfolding ln by (rule streetName_length)
  from floorRandom_less [OF assms(3), of 8] have "floorRandom (random3 e) 8 < 8" by simp
  then have b: "2 \<le> length (streetTypes ! floorRandom (random3 e) (length streetTypes))
         \<and> length (streetTypes ! floorRandom (random3 e) (length streetTypes)) \<le> 4"
    unfolding lt by (rule streetType_length)
  from n4 n1 a b show ?thesis
    by (simp add: synthesizeAddress_def Let_def)
qed

lemma example_address:
  "synthesizeAddress exampleEnv cityName stateName
     = ''5000 Pine St, '' @ cityName @ '', '' @ stateName"
  by (simp add: synthesizeAddress_def Let_def exampleEnv_def floorRandom_def streetNames_def
      streetTypes_def natToString.simps digitChar_def)

lemma example_address2:
  "synthesizeAddress exampleEnv2 cityName stateName
     = ''2500 Main Ln, '' @ cityName @ '', '' @ stateName"
  by (simp add: synthesizeAddress_def Let_def exampleEnv2_def floorRandom_def streetNames_def
      streetTypes_def natToString.simps digitChar_def)

section \<open>Facts about the collectors\<close>

lemma foldl_selectorResults:
  "foldl (\<lambda>selectorResults selector.
            (let elements = length (pg selector)
             in if elements > 0 then selectorResults(selector \<mapsto> elements)
                else selectorResults)) m sels k
   = (if k \<in> set sels \<and> 0 < length (pg k) then Some (length (pg k)) else m k)"
  by (induction sels arbitrary: m) (auto simp: Let_def)

lemma testSelectors_eq:
  "testSelectors pg k
   = (if k \<in> set propertySelectors \<and> 0 < length (pg k) then Some (length (pg k)) else None)"
  unfolding testSelectors_def by (simp only: foldl_selectorResults)

lemma firstFallback_Some:
  "firstFallback selectorResults sels = Some (sel, n) \<Longrightarrow> selectorResults sel = Some n"
  by (induction sels) (auto split: option.splits if_splits)

lemma bestSelector_count:
  assumes "bestSelector pg = (sel, n)"
  shows "n = length (pg sel)"
proof -
  have card: "''.listing-card'' \<in> set propertySelectors"
    by (simp add: propertySelectors_def)
  show ?thesis
  proof (cases "testSelectors pg ''.listing-card''")
    case None
    then have z: "length (pg ''.listing-card'') = 0"
      using card by (simp add: testSelectors_eq split: if_splits)
    show ?thesis
    proof (cases "firstFallback (testSelectors pg) fallbackSelectors")
      case None
      with \<open>testSelectors pg ''.listing-card'' = None\<close> assms z show ?thesis
        by (simp add: bestSelector_def Let_def)
    next
      case (Some found)
      with \<open>testSelectors pg ''.listing-card'' = None\<close> assms have "found = (sel, n)"
        by (simp add: bestSelector_def Let_def)
      with Some have "testSelectors pg sel = Some n" using firstFallback_Some by blast
      then show ?thesis by (simp add: testSelectors_eq split: if_splits)
    qed
  next
    case (Some k)
    then have k: "k = length (pg ''.listing-card'')" "0 < k"
      by (auto simp: testSelectors_eq split: if_splits)
    with Some assms show ?thesis by (auto simp: bestSelector_def Let_def)
  qed
qed

lemma collectProperties_cli_eq:
  "collectProperties_cli pg cityName stateName maxProperties envs
   = map (\<lambda>(index, l). extract_cli l cityName stateName index (envs index))
       (enumerate 0 (slice0 (pg (fst (bestSelector pg))) maxProperties))"
proof (cases "bestSelector pg")
  case (Pair sel n)
  then have "n = length (pg sel)" by (rule bestSelector_count)
  with Pair show ?thesis by (auto simp: collectProperties_cli_def Let_def)
qed

lemma collectProperties_mcp_eq:
  "collectProperties_mcp pg cityName stateName maxProperties envs
   = filter (\<lambda>property. property \<noteq> None)
       (map (\<lambda>(index, l). extract_mcp l cityName stateName index (envs index))
          (enumerate 0 (slice0 (pg (fst (bestSelector pg))) maxProperties)))"
proof (cases "bestSelector pg")
  case (Pair sel n)
  then have "n = length (pg sel)" by (rule bestSelector_count)
  with Pair show ?thesis by (auto simp: collectProperties_mcp_def Let_def)
qed

lemma collectProperties_lambda_eq:
  "collectProperties_lambda pg cityName stateName maxProperties envs
   = map (\<lambda>(index, l). extract_lambda l cityName stateName index (envs index))
       (enumerate 0 (take 20 (pg (fst (bestSelector pg)))))"
proof (cases "bestSelector pg")
  case (Pair sel n)
  then have "n = length (pg sel)" by (rule bestSelector_count)
  with Pair show ?thesis by (auto simp: collectProperties_lambda_def Let_def slice0_def)
qed

lemma collectProperties_mcp_set:
  assumes "p \<in> set (collectProperties_mcp pg cityName stateName maxProperties envs)"
  shows "\<exists>l index e. p = extract_mcp l cityName stateName index e \<and> p \<noteq> None"
  using assms
  by (auto simp: collectProperties_mcp_def Let_def split: prod.splits if_splits)

lemma validProperties_filter:
  "map Some (validProperties properties) = filter (\<lambda>p. p \<noteq> None) properties"
  by (induction properties) (auto simp: validProperties_def)

lemma example_two_nodes:
  "collectProperties_cli
     (examplePage
        [exampleListing [] ''12 Oak Street'' ''/img/a.jpg'' ''/listing/1'' ''2 bed, 1 bath, 1000 sqft'',
         exampleListing ''$325,000'' ''14 Oak Street'' ''/img/b.jpg'' ''/listing/2'' ''$325,000''])
     ''Columbus'' ''OH'' 20 exampleEnvs
   = [extract_cli (exampleListing [] ''12 Oak Street'' ''/img/a.jpg'' ''/listing/1''
         ''2 bed, 1 bath, 1000 sqft'') ''Columbus'' ''OH'' 0 (exampleEnvs 0),
      extract_cli (exampleListing ''$325,000'' ''14 Oak Street'' ''/img/b.jpg'' ''/listing/2''
         ''$325,000'') ''Columbus'' ''OH'' 1 (exampleEnvs 1)]"
  by (simp add: collectProperties_cli_eq slice0_def)

lemma set_slice0: "set (slice0 xs m) \<subseteq> set xs"
  by (auto simp: slice0_def dest: in_set_takeD)

lemma collectProperties_cli_from_node:
  assumes "Some r \<in> set (collectProperties_cli pg cityName stateName maxProperties envs)"
  shows "\<exists>l \<in> set (pg (fst (bestSelector pg))).
           parsePrice (extractText l priceSelectors) (listingTextContent l) = Some (price r)"
proof -
  from assms have "Some r \<in> (\<lambda>(index, l). extract_cli l cityName stateName index (envs index))
       ` set (enumerate 0 (slice0 (pg (fst (bestSelector pg))) maxProperties))"
    by (simp only: collectProperties_cli_eq set_map)
  then obtain x where x: "x \<in> set (enumerate 0 (slice0 (pg (fst (bestSelector pg))) maxProperties))"
    and e: "Some r = (\<lambda>(index, l). extract_cli l cityName stateName index (envs index)) x"
    by (rule imageE)
  obtain index l where xl: "x = (index, l)" by (cases x)
  from x have "snd x \<in> snd ` set (enumerate 0 (slice0 (pg (fst (bestSelector pg))) maxProperties))"
    by (rule imageI)
  then have "snd x \<in> set (slice0 (pg (fst (bestSelector pg))) maxProperties)"
    by (simp only: set_map [symmetric] map_snd_enumerate)
  with xl have "l \<in> set (slice0 (pg (fst (bestSelector pg))) maxProperties)"
    by simp
  then have l: "l \<in> set (pg (fst (bestSelector pg)))" by (rule subsetD [OF set_slice0])
  from e xl have "extract_cli l cityName stateName index (envs index) = Some r" by simp
  then have "parsePrice (extractText l priceSelectors) (listingTextContent l) = Some (price r)"
    by (rule conjunct1 [OF extract_cli_Some])
  with l show ?thesis by (rule bexI [rotated])
qed

lemma collectProperties_mcp_from_node:
  assumes "Some r \<in> set (collectProperties_mcp pg cityName stateName maxProperties envs)"
  shows "\<exists>l \<in> set (pg (fst (bestSelector pg))).
           parsePrice (extractText l priceSelectors @ '' '' @ listingTextContent l)
             (listingTextContent l) = Some (price r)"
proof -
  from assms have "Some r \<in> set (map (\<lambda>(index, l). extract_mcp l cityName stateName index (envs index))
       (enumerate 0 (slice0 (pg (fst (bestSelector pg))) maxProperties)))"
    by (simp only: collectProperties_mcp_eq set_filter) simp
  then have "Some r \<in> (\<lambda>(index, l). extract_mcp l cityName stateName index (envs index))
       ` set (enumerate 0 (slice0 (pg (fst (bestSelector pg))) maxProperties))"
    by (simp only: set_map)
  then obtain x where x: "x \<in> set (enumerate 0 (slice0 (pg (fst (bestSelector pg))) maxProperties))"
    and e: "Some r = (\<lambda>(index, l). extract_mcp l cityName stateName index (envs index)) x"
    by (rule imageE)
  obtain index l where xl: "x = (index, l)" by (cases x)
  from x have "snd x \<in> snd ` set (enumerate 0 (slice0 (pg (fst (bestSelector pg))) maxProperties))"
    by (rule imageI)
  then have "snd x \<in> set (slice0 (pg (fst (bestSelector pg))) maxProperties)"
    by (simp only: set_map [symmetric] map_snd_enumerate)
  with xl have "l \<in> set (slice0 (pg (fst (bestSelector pg))) maxProperties)"
    by simp
  then have l: "l \<in> set (pg (fst (bestSelector pg)))" by (rule subsetD [OF set_slice0])
  from e xl have "extract_mcp l cityName stateName index (envs index) = Some r" by simp
  then have "parsePrice (extractText l priceSelectors @ '' '' @ listingTextContent l)
             (listingTextContent l) = Some (price r)"
    by (rule conjunct1 [OF extract_mcp_Some])
  with l show ?thesis by (rule bexI [rotated])
qed

section \<open>The price gate\<close>

text \<open>
  C1, as amended: in the CLI collector and in the MCP collector, a listing node whose price
  parsing yields absent is rejected. The callback returns \<open>null\<close> for it, whatever its beds,
  baths, square feet, address and image are, and every record in the list a collector
  returns comes from a located node whose price parsing yields the price of the record.
  (The price text is what the CLI collector parses; the MCP collector parses the price
  text joined to the full text.)
\<close>

theorem price_gate:
  "(parsePrice (extractText l priceSelectors) (listingTextContent l) = None
      \<longrightarrow> extract_cli l cityName stateName index e = None)
   \<and> (parsePrice (extractText l priceSelectors @ '' '' @ listingTextContent l)
         (listingTextContent l) = None
      \<longrightarrow> extract_mcp l cityName stateName index e = None)
   \<and> (Some r \<in> set (collectProperties_cli pg cityName stateName maxProperties envs)
      \<longrightarrow> (\<exists>l' \<in> set (pg (fst (bestSelector pg))).
             parsePrice (extractText l' priceSelectors) (listingTextContent l') = Some (price r)))
   \<and> (Some r' \<in> set (collectProperties_mcp pg cityName stateName maxProperties envs)
      \<longrightarrow> (\<exists>l' \<in> set (pg (fst (bestSelector pg))).
             parsePrice (extractText l' priceSelectors @ '' '' @ listingTextContent l')
               (listingTextContent l') = Some (price r')))"
proof -
  have c1: "parsePrice (extractText l priceSelectors) (listingTextContent l) = None
      \<longrightarrow> extract_cli l cityName stateName index e = None"
    by (simp add: extract_cli_None)
  have c2: "parsePrice (extractText l priceSelectors @ '' '' @ listingTextContent l)
         (listingTextContent l) = None
      \<longrightarrow> extract_mcp l cityName stateName index e = None"
    by (simp add: extract_mcp_None)
  have c3: "Some r \<in> set (collectProperties_cli pg cityName stateName maxProperties envs)
      \<longrightarrow> (\<exists>l' \<in> set (pg (fst (bestSelector pg))).
             parsePrice (extractText l' priceSelectors) (listingTextContent l') = Some (price r))"
    using collectProperties_cli_from_node by blast
  have c4: "Some r' \<in> set (collectProperties_mcp pg cityName stateName maxProperties envs)
      \<longrightarrow> (\<exists>l' \<in> set (pg (fst (bestSelector pg))).
             parsePrice (extractText l' priceSelectors @ '' '' @ listingTextContent l')
               (listingTextContent l') = Some (price r'))"
    using collectProperties_mcp_from_node by blast
  show ?thesis by (rule conjI [OF c1 conjI [OF c2 conjI [OF c3 c4]]])
qed

text \<open>
  A node with an address, an image, a link and the text \<open>2 bed, 1 bath, 1000 sqft\<close>, and
  no price anywhere.
\<close>

theorem price_gate_witness:
  "parsePrice (extractText (exampleListing [] ''12 Oak Street'' ''/img/a.jpg'' ''/listing/1''
        ''2 bed, 1 bath, 1000 sqft'') priceSelectors) ''2 bed, 1 bath, 1000 sqft'' = None
   \<and> extract_cli (exampleListing [] ''12 Oak Street'' ''/img/a.jpg'' ''/listing/1''
        ''2 bed, 1 bath, 1000 sqft'') ''Columbus'' ''OH'' 0 exampleEnv = None
   \<and> extract_mcp (exampleListing [] ''12 Oak Street'' ''/img/a.jpg'' ''/listing/1''
        ''2 bed, 1 bath, 1000 sqft'') ''Columbus'' ''OH'' 0 exampleEnv = None"
proof -
  let ?l = "exampleListing [] ''12 Oak Street'' ''/img/a.jpg'' ''/listing/1''
        ''2 bed, 1 bath, 1000 sqft''"
  have a: "parsePrice (extractText ?l priceSelectors) (listingTextContent ?l) = None"
    by (simp add: price_defs rx_defs char_defs trim_def)
  have b: "parsePrice (extractText ?l priceSelectors @ '' '' @ listingTextContent ?l)
         (listingTextContent ?l) = None"
    by (simp add: price_defs rx_defs char_defs trim_def)
  note gate = price_gate [of ?l "''Columbus''" "''OH''" 0 exampleEnv]
  from conjunct1 [OF gate] a have c: "extract_cli ?l ''Columbus'' ''OH'' 0 exampleEnv = None"
    by (rule mp)
  from conjunct1 [OF conjunct2 [OF gate]] b
  have d: "extract_mcp ?l ''Columbus'' ''OH'' 0 exampleEnv = None"
    by (rule mp)
  from a c d show ?thesis by simp
qed

text \<open>
  The claim as stated fails in the Lambda service: its parser returns the text
  \<open>Price not available\<close> where no price is found, and the record of the same node is
  emitted with that text as its price.
\<close>

theorem price_gate_lambda_counterexample:
  "scanPrice pricePatterns ([] @ '' '' @ ''2 bed, 1 bath, 1000 sqft'') = None
   \<and> map price (collectProperties_lambda
        (examplePage [exampleListing [] ''12 Oak Street'' ''/img/a.jpg'' ''/listing/1''
           ''2 bed, 1 bath, 1000 sqft''])
        ''Parma'' ''OH'' 20 exampleEnvs) = [''Price not available'']"
proof -
  let ?l = "exampleListing [] ''12 Oak Street'' ''/img/a.jpg'' ''/listing/1''
        ''2 bed, 1 bath, 1000 sqft''"
  have a: "scanPrice pricePatterns ([] @ '' '' @ ''2 bed, 1 bath, 1000 sqft'') = None"
    by (simp add: price_defs rx_defs char_defs)
  have b: "collectProperties_lambda (examplePage [?l]) ''Parma'' ''OH'' 20 exampleEnvs
           = [extract_lambda ?l ''Parma'' ''OH'' 0 (exampleEnvs 0)]"
    by (simp add: collectProperties_lambda_def slice0_def Let_def)
  have c: "price (extract_lambda ?l ''Parma'' ''OH'' 0 (exampleEnvs 0)) = ''Price not available''"
    using a by (simp add: extract_lambda_def Let_def parsePrice_lambda_def trim_def)
  from a b c show ?thesis by simp
qed

section \<open>The phrases for no price\<close>

text \<open>
  C2, as amended: let \<open>phrase\<close> be one of the ten phrases that stand for no real price. The
  CLI collector passes the price text to the parser, which returns absent whenever the
  lower-cased price text contains the phrase. The MCP collector passes the price text
  joined to the full text, so there the parser returns absent whenever the lower-cased
  price text or the lower-cased full text contains the phrase.
\<close>

theorem parsePrice_rejects_indicator:
  assumes "phrase \<in> set invalidPriceIndicators"
  shows "((\<exists>pre post. toLowerCase priceText = pre @ phrase @ post)
            \<longrightarrow> parsePrice priceText fullText = None)
       \<and> ((\<exists>pre post. toLowerCase priceText = pre @ phrase @ post)
            \<or> (\<exists>pre post. toLowerCase fullText = pre @ phrase @ post)
            \<longrightarrow> parsePrice (priceText @ '' '' @ fullText) fullText = None)"
proof (intro conjI impI)
  assume "\<exists>pre post. toLowerCase priceText = pre @ phrase @ post"
  then show "parsePrice priceText fullText = None"
    using assms parsePrice_indicator by blast
next
  assume "(\<exists>pre post. toLowerCase priceText = pre @ phrase @ post)
            \<or> (\<exists>pre post. toLowerCase fullText = pre @ phrase @ post)"
  then show "parsePrice (priceText @ '' '' @ fullText) fullText = None"
  proof
    assume "\<exists>pre post. toLowerCase priceText = pre @ phrase @ post"
    then obtain pre post where "toLowerCase priceText = pre @ phrase @ post" by blast
    then have "toLowerCase (priceText @ '' '' @ fullText)
                 = pre @ phrase @ (post @ toLowerCase ('' '' @ fullText))"
      unfolding toLowerCase_def by simp
    then show ?thesis using assms parsePrice_indicator by blast
  next
    assume "\<exists>pre post. toLowerCase fullText = pre @ phrase @ post"
    then obtain pre post where "toLowerCase fullText = pre @ phrase @ post" by blast
    then have "toLowerCase (priceText @ '' '' @ fullText)
                 = (toLowerCase (priceText @ '' '') @ pre) @ phrase @ post"
      unfolding toLowerCase_def by simp
    then show ?thesis using assms parsePrice_indicator by blast
  qed
qed

text \<open>The phrase \<open>sold\<close> in the price text, and in the full text of the MCP collector.\<close>

theorem parsePrice_rejects_indicator_witness:
  "''sold'' \<in> set invalidPriceIndicators
   \<and> toLowerCase ''SOLD $325,000'' = [] @ ''sold'' @ '' $325,000''
   \<and> parsePrice ''SOLD $325,000'' ''3 bed $325,000'' = None
   \<and> parsePrice (''$325,000'' @ '' '' @ ''SOLD $325,000'') ''SOLD $325,000'' = None"
proof -
  have a: "''sold'' \<in> set invalidPriceIndicators"
    by (simp add: invalidPriceIndicators_def)
  have b: "toLowerCase ''SOLD $325,000'' = [] @ ''sold'' @ '' $325,000''"
    by (simp add: char_defs)
  from parsePrice_rejects_indicator [OF a, of "''SOLD $325,000''" "''3 bed $325,000''"] b
  have c: "parsePrice ''SOLD $325,000'' ''3 bed $325,000'' = None"
    by blast
  from parsePrice_rejects_indicator [OF a, of "''$325,000''" "''SOLD $325,000''"] b
  have d: "parsePrice (''$325,000'' @ '' '' @ ''SOLD $325,000'') ''SOLD $325,000'' = None"
    by blast
  from a b c d show ?thesis by blast
qed

text \<open>
  The claim as stated fails: with the price text \<open>$325,000\<close> and the full text
  \<open>SOLD $325,000\<close> the joined text contains \<open>sold\<close>, and the parser of the CLI collector
  returns \<open>$325,000\<close>; the record is emitted with that price. The parser of the Lambda
  service, which has no list of phrases, returns the price even for the price text \<open>Sold\<close>.
\<close>

theorem indicator_in_fullText_counterexample:
  "''sold'' \<in> set invalidPriceIndicators
   \<and> toLowerCase (''$325,000'' @ '' '' @ ''SOLD $325,000'') = ''$325,000 '' @ ''sold'' @ '' $325,000''
   \<and> parsePrice ''$325,000'' ''SOLD $325,000'' = Some ''$325,000''
   \<and> map_option price (extract_cli
        (exampleListing ''$325,000'' ''12 Oak St'' ''/a.jpg'' ''/listing/1'' ''SOLD $325,000'')
        ''Columbus'' ''OH'' 0 exampleEnv) = Some ''$325,000''
   \<and> parsePrice_lambda ''Sold'' ''Sold $325,000'' = ''$325,000''"
  by (simp add: price_defs rx_defs char_defs extract_cli_def trim_def Let_def)

section \<open>The range of a price\<close>

text \<open>
  C3: the price parser never returns a price whose number, read after the currency sign
  and the commas are removed, is outside the open interval from 10000 to 10000000. A
  pattern whose first match is out of range (or holds no number) sends the parser on to
  the remaining patterns, and with no pattern left the result is absent.
\<close>

theorem parsePrice_never_out_of_range:
  "(parsePrice text fullText = Some p \<longrightarrow>
      (\<exists>n. parseInt (removeDollarComma p) = Some n \<and> 10000 < n \<and> n < 10000000))
   \<and> (firstMatch pattern s = Some m
        \<and> (\<forall>n. parseInt (removeDollarComma (removeSpaces m)) = Some n
                 \<longrightarrow> \<not> (10000 < n \<and> n < 10000000))
      \<longrightarrow> scanPrice (pattern # patterns) s = scanPrice patterns s)
   \<and> scanPrice [] s = None"
proof (intro conjI impI)
  assume "parsePrice text fullText = Some p"
  then have "scanPrice pricePatterns (text @ '' '' @ fullText) = Some p"
    by (simp add: parsePrice_def Let_def split: if_splits)
  then show "\<exists>n. parseInt (removeDollarComma p) = Some n \<and> 10000 < n \<and> n < 10000000"
    by (rule scanPrice_in_range)
next
  assume "firstMatch pattern s = Some m
        \<and> (\<forall>n. parseInt (removeDollarComma (removeSpaces m)) = Some n
                 \<longrightarrow> \<not> (10000 < n \<and> n < 10000000))"
  then show "scanPrice (pattern # patterns) s = scanPrice patterns s"
    using scanPrice_skip by blast
next
  show "scanPrice [] s = None" by simp
qed

text \<open>
  On the text \<open>$50 fee, 325,000 $\<close> the first two patterns find \<open>$50\<close>, which is out of
  range, and the third finds \<open>325,000 $\<close>.
\<close>

theorem parsePrice_never_out_of_range_witness:
  "parsePrice '''' ''$50 fee, 325,000 $'' = Some ''325,000$''
   \<and> parseInt (removeDollarComma ''325,000$'') = Some 325000
   \<and> firstMatch (hd pricePatterns) '' $50 fee, 325,000 $'' = Some ''$50''
   \<and> parseInt (removeDollarComma (removeSpaces ''$50'')) = Some 50
   \<and> scanPrice pricePatterns '' $50 fee, 325,000 $''
       = scanPrice (tl pricePatterns) '' $50 fee, 325,000 $''"
proof -
  have a: "parsePrice '''' ''$50 fee, 325,000 $'' = Some ''325,000$''"
    by (simp add: price_defs rx_defs char_defs)
  have b: "firstMatch (hd pricePatterns) '' $50 fee, 325,000 $'' = Some ''$50''"
    by (simp add: price_defs rx_defs char_defs)
  have c: "parseInt (removeDollarComma (removeSpaces ''$50'')) = Some 50"
    by (simp add: price_defs char_defs)
  have d: "pricePatterns = hd pricePatterns # tl pricePatterns"
    by (simp add: pricePatterns_def)
  have e: "parseInt (removeDollarComma ''325,000$'') = Some 325000"
    by (simp add: price_defs char_defs)
  from parsePrice_never_out_of_range
    [of "''''" "''$50 fee, 325,000 $''" "''325,000$''" "hd pricePatterns"
        "'' $50 fee, 325,000 $''" "''$50''" "tl pricePatterns"] b c
  have "scanPrice (hd pricePatterns # tl pricePatterns) '' $50 fee, 325,000 $''
        = scanPrice (tl pricePatterns) '' $50 fee, 325,000 $''"
    by simp
  with d have f: "scanPrice pricePatterns '' $50 fee, 325,000 $''
        = scanPrice (tl pricePatterns) '' $50 fee, 325,000 $''"
    by simp
  from a e b c f show ?thesis by blast
qed

section \<open>The price range\<close>




section \<open>The collected list\<close>




section \<open>The limit\<close>

text \<open>
  C6 at the Lambda service, whose \<open>collectProperties\<close> has the parameter \<open>maxProperties\<close>
  and never reads it: the result is the one for the limit 20, the callback runs on the
  first 20 located nodes, and for a limit of 5 on a page of 20 nodes it runs on all 20.
\<close>

theorem collectProperties_lambda_ignores_limit:
  "collectProperties_lambda pg cityName stateName maxProperties envs
     = collectProperties_lambda pg cityName stateName 20 envs
   \<and> length (collectProperties_lambda pg cityName stateName maxProperties envs)
       = min 20 (length (pg (fst (bestSelector pg))))
   \<and> length (collectProperties_lambda
        (examplePage (replicate 20
           (exampleListing ''$325,000'' ''12 Oak Street'' ''/img/a.jpg'' ''/listing/1'' ''3 bed'')))
        ''Parma'' ''OH'' 5 exampleEnvs) = 20"
proof -
  have c1: "collectProperties_lambda pg cityName stateName maxProperties envs
     = collectProperties_lambda pg cityName stateName 20 envs"
    by (simp add: collectProperties_lambda_def)
  have c2: "length (collectProperties_lambda pg cityName stateName maxProperties envs)
       = min 20 (length (pg (fst (bestSelector pg))))"
    by (simp add: collectProperties_lambda_eq min.commute)
  have c3: "length (collectProperties_lambda
        (examplePage (replicate 20
           (exampleListing ''$325,000'' ''12 Oak Street'' ''/img/a.jpg'' ''/listing/1'' ''3 bed'')))
        ''Parma'' ''OH'' 5 exampleEnvs) = 20"
    by (simp add: collectProperties_lambda_eq)
  show ?thesis by (rule conjI [OF c1 conjI [OF c2 c3]])
qed

text \<open>
  X2: for a limit that is not negative, the CLI collector and the MCP collector run the
  callback on the first \<open>maxProperties\<close> located nodes, in document order, and on no more.
\<close>

theorem collectProperties_truncates:
  "0 \<le> maxProperties \<longrightarrow>
     collectProperties_cli pg cityName stateName maxProperties envs
       = map (\<lambda>(index, l). extract_cli l cityName stateName index (envs index))
           (enumerate 0 (take (nat maxProperties) (pg (fst (bestSelector pg)))))
     \<and> length (collectProperties_cli pg cityName stateName maxProperties envs)
         = min (nat maxProperties) (length (pg (fst (bestSelector pg))))
     \<and> collectProperties_mcp pg cityName stateName maxProperties envs
       = filter (\<lambda>property. property \<noteq> None)
           (map (\<lambda>(index, l). extract_mcp l cityName stateName index (envs index))
              (enumerate 0 (take (nat maxProperties) (pg (fst (bestSelector pg))))))
     \<and> length (collectProperties_mcp pg cityName stateName maxProperties envs)
         \<le> nat maxProperties"
proof
  assume m: "0 \<le> maxProperties"
  then have s: "slice0 (pg (fst (bestSelector pg))) maxProperties
                = take (nat maxProperties) (pg (fst (bestSelector pg)))"
    by (simp add: slice0_def)
  have c1: "collectProperties_cli pg cityName stateName maxProperties envs
       = map (\<lambda>(index, l). extract_cli l cityName stateName index (envs index))
           (enumerate 0 (take (nat maxProperties) (pg (fst (bestSelector pg)))))"
    by (simp only: collectProperties_cli_eq s)
  have c2: "length (collectProperties_cli pg cityName stateName maxProperties envs)
         = min (nat maxProperties) (length (pg (fst (bestSelector pg))))"
    by (simp only: c1) (simp add: min.commute)
  have c3: "collectProperties_mcp pg cityName stateName maxProperties envs
       = filter (\<lambda>property. property \<noteq> None)
           (map (\<lambda>(index, l). extract_mcp l cityName stateName index (envs index))
              (enumerate 0 (take (nat maxProperties) (pg (fst (bestSelector pg))))))"
    by (simp only: collectProperties_mcp_eq s)
  have "length (collectProperties_mcp pg cityName stateName maxProperties envs)
         \<le> length (map (\<lambda>(index, l). extract_mcp l cityName stateName index (envs index))
              (enumerate 0 (take (nat maxProperties) (pg (fst (bestSelector pg))))))"
    by (simp only: c3) (rule length_filter_le)
  then have c4: "length (collectProperties_mcp pg cityName stateName maxProperties envs)
         \<le> nat maxProperties"
    by simp
  show "collectProperties_cli pg cityName stateName maxProperties envs
       = map (\<lambda>(index, l). extract_cli l cityName stateName index (envs index))
           (enumerate 0 (take (nat maxProperties) (pg (fst (bestSelector pg)))))
     \<and> length (collectProperties_cli pg cityName stateName maxProperties envs)
         = min (nat maxProperties) (length (pg (fst (bestSelector pg))))
     \<and> collectProperties_mcp pg cityName stateName maxProperties envs
       = filter (\<lambda>property. property \<noteq> None)
           (map (\<lambda>(index, l). extract_mcp l cityName stateName index (envs index))
              (enumerate 0 (take (nat maxProperties) (pg (fst (bestSelector pg))))))
     \<and> length (collectProperties_mcp pg cityName stateName maxProperties envs)
         \<le> nat maxProperties"
    by (rule conjI [OF c1 conjI [OF c2 conjI [OF c3 c4]]])
qed

text \<open>A limit of 5 on a page of 20 nodes.\<close>

theorem collectProperties_truncates_witness:
  "(0::int) \<le> 5
   \<and> length (collectProperties_cli
        (examplePage (replicate 20
           (exampleListing ''$325,000'' ''12 Oak Street'' ''/img/a.jpg'' ''/listing/1'' ''3 bed'')))
        ''Columbus'' ''OH'' 5 exampleEnvs) = 5"
proof -
  have a: "(0::int) \<le> 5" by simp
  from collectProperties_truncates [of 5 "examplePage (replicate 20
           (exampleListing ''$325,000'' ''12 Oak Street'' ''/img/a.jpg'' ''/listing/1'' ''3 bed''))"
      "''Columbus''" "''OH''" exampleEnvs] a
  have "length (collectProperties_cli
        (examplePage (replicate 20
           (exampleListing ''$325,000'' ''12 Oak Street'' ''/img/a.jpg'' ''/listing/1'' ''3 bed'')))
        ''Columbus'' ''OH'' 5 exampleEnvs)
      = min (nat 5) (length (examplePage (replicate 20
           (exampleListing ''$325,000'' ''12 Oak Street'' ''/img/a.jpg'' ''/listing/1'' ''3 bed''))
           (fst (bestSelector (examplePage (replicate 20
           (exampleListing ''$325,000'' ''12 Oak Street'' ''/img/a.jpg'' ''/listing/1'' ''3 bed'')))))))"
    by blast
  then show ?thesis by simp
qed

text \<open>
  X3: \<open>slice\<close> counts a negative end from the end of the array, so for a negative limit the
  CLI collector runs the callback on all located nodes but the last \<open>- maxProperties\<close>.
\<close>

theorem collectProperties_cli_negative_limit:
  "maxProperties < 0 \<longrightarrow>
     length (collectProperties_cli pg cityName stateName maxProperties envs)
       = length (pg (fst (bestSelector pg))) - nat (- maxProperties)"
proof
  assume "maxProperties < 0"
  then show "length (collectProperties_cli pg cityName stateName maxProperties envs)
       = length (pg (fst (bestSelector pg))) - nat (- maxProperties)"
    by (simp add: collectProperties_cli_eq slice0_def)
qed

text \<open>A limit of -1 on a page of 20 nodes.\<close>

theorem collectProperties_cli_negative_limit_witness:
  "(- 1::int) < 0
   \<and> length (collectProperties_cli
        (examplePage (replicate 20
           (exampleListing ''$325,000'' ''12 Oak Street'' ''/img/a.jpg'' ''/listing/1'' ''3 bed'')))
        ''Columbus'' ''OH'' (- 1) exampleEnvs) = 19"
proof -
  have a: "(- 1::int) < 0" by simp
  from collectProperties_cli_negative_limit [of "- 1" "examplePage (replicate 20
           (exampleListing ''$325,000'' ''12 Oak Street'' ''/img/a.jpg'' ''/listing/1'' ''3 bed''))"
      "''Columbus''" "''OH''" exampleEnvs] a
  have "length (collectProperties_cli
        (examplePage (replicate 20
           (exampleListing ''$325,000'' ''12 Oak Street'' ''/img/a.jpg'' ''/listing/1'' ''3 bed'')))
        ''Columbus'' ''OH'' (- 1) exampleEnvs)
      = length (examplePage (replicate 20
           (exampleListing ''$325,000'' ''12 Oak Street'' ''/img/a.jpg'' ''/listing/1'' ''3 bed''))
           (fst (bestSelector (examplePage (replicate 20
           (exampleListing ''$325,000'' ''12 Oak Street'' ''/img/a.jpg'' ''/listing/1'' ''3 bed''))))))
        - nat (- (- 1))"
    by blast
  then show ?thesis by simp
qed

section \<open>Running the callback twice\<close>

text \<open>
  C7, as amended: two runs of the callback of the CLI collector on the same node, city,
  state and index, under any two readings of the clock and of \<open>Math.random\<close>, both reject
  the node or both emit a record, and the two records agree on price, beds, baths, sqft,
  image URL, property URL, price range, property type, description, city and state. They
  agree on the address when the address is not a synthesized one (the parsed address, or
  else the address text, has 10 characters or more), and when the two runs draw the same
  random numbers. The fields \<open>objectID\<close> and \<open>collectedAt\<close> come from the clock.
\<close>

theorem extract_cli_repeatable:
  "(extract_cli l cityName stateName index e1 = None
      \<longleftrightarrow> extract_cli l cityName stateName index e2 = None)
   \<and> (extract_cli l cityName stateName index e1 = Some r1
        \<and> extract_cli l cityName stateName index e2 = Some r2 \<longrightarrow>
        price r1 = price r2 \<and> beds r1 = beds r2 \<and> baths r1 = baths r2 \<and> sqft r1 = sqft r2
        \<and> imageUrl r1 = imageUrl r2 \<and> propertyUrl r1 = propertyUrl r2
        \<and> priceRange r1 = priceRange r2 \<and> propertyType r1 = propertyType r2
        \<and> description r1 = description r2 \<and> city r1 = city r2 \<and> state r1 = state r2
        \<and> (10 \<le> length (orElse (parseAddress (listingTextContent l) (listingTextContent l)
                                   cityName stateName)
                               (extractText l addressSelectors))
             \<longrightarrow> address r1 = address r2)
        \<and> (random1 e1 = random1 e2 \<and> random2 e1 = random2 e2 \<and> random3 e1 = random3 e2
             \<longrightarrow> address r1 = address r2))"
proof -
  have c1: "extract_cli l cityName stateName index e1 = None
      \<longleftrightarrow> extract_cli l cityName stateName index e2 = None"
    by (simp only: extract_cli_None_iff)
  have c2: "extract_cli l cityName stateName index e1 = Some r1
        \<and> extract_cli l cityName stateName index e2 = Some r2 \<longrightarrow>
        price r1 = price r2 \<and> beds r1 = beds r2 \<and> baths r1 = baths r2 \<and> sqft r1 = sqft r2
        \<and> imageUrl r1 = imageUrl r2 \<and> propertyUrl r1 = propertyUrl r2
        \<and> priceRange r1 = priceRange r2 \<and> propertyType r1 = propertyType r2
        \<and> description r1 = description r2 \<and> city r1 = city r2 \<and> state r1 = state r2
        \<and> (10 \<le> length (orElse (parseAddress (listingTextContent l) (listingTextContent l)
                                   cityName stateName)
                               (extractText l addressSelectors))
             \<longrightarrow> address r1 = address r2)
        \<and> (random1 e1 = random1 e2 \<and> random2 e1 = random2 e2 \<and> random3 e1 = random3 e2
             \<longrightarrow> address r1 = address r2)"
  proof
    assume a: "extract_cli l cityName stateName index e1 = Some r1
        \<and> extract_cli l cityName stateName index e2 = Some r2"
    note f1 = extract_cli_fields [OF conjunct1 [OF a]]
    note f2 = extract_cli_fields [OF conjunct2 [OF a]]
    from f1 f2 have p: "price r1 = price r2" and b: "beds r1 = beds r2"
      and ba: "baths r1 = baths r2" and sq: "sqft r1 = sqft r2"
      and im: "imageUrl r1 = imageUrl r2" and pu: "propertyUrl r1 = propertyUrl r2"
      and ci: "city r1 = city r2" and st: "state r1 = state r2"
      by simp_all
    from f1 f2 p have pr: "priceRange r1 = priceRange r2" by simp
    from f1 f2 b have pt: "propertyType r1 = propertyType r2" by simp
    from f1 f2 p b ba sq pr pt have de: "description r1 = description r2" by simp
    have ad1: "10 \<le> length (orElse (parseAddress (listingTextContent l) (listingTextContent l)
                                   cityName stateName)
                               (extractText l addressSelectors))
             \<longrightarrow> address r1 = address r2"
      using f1 f2 by (simp add: finalAddress_cli_kept)
    have ad2: "random1 e1 = random1 e2 \<and> random2 e1 = random2 e2 \<and> random3 e1 = random3 e2
             \<longrightarrow> address r1 = address r2"
      using f1 f2 finalAddress_cli_same_draws [of e1 e2] by simp
    from p b ba sq im pu pr pt de ci st ad1 ad2
    show "price r1 = price r2 \<and> beds r1 = beds r2 \<and> baths r1 = baths r2 \<and> sqft r1 = sqft r2
        \<and> imageUrl r1 = imageUrl r2 \<and> propertyUrl r1 = propertyUrl r2
        \<and> priceRange r1 = priceRange r2 \<and> propertyType r1 = propertyType r2
        \<and> description r1 = description r2 \<and> city r1 = city r2 \<and> state r1 = state r2
        \<and> (10 \<le> length (orElse (parseAddress (listingTextContent l) (listingTextContent l)
                                   cityName stateName)
                               (extractText l addressSelectors))
             \<longrightarrow> address r1 = address r2)
        \<and> (random1 e1 = random1 e2 \<and> random2 e1 = random2 e2 \<and> random3 e1 = random3 e2
             \<longrightarrow> address r1 = address r2)"
      by (intro conjI)
  qed
  show ?thesis by (rule conjI [OF c1 c2])
qed

text \<open>A node with the address text \<open>12 Oak Street\<close>, under two different environments.\<close>

theorem extract_cli_repeatable_witness:
  "10 \<le> length (orElse (parseAddress ''$325,000'' ''$325,000'' ''Columbus'' ''OH'')
                   ''12 Oak Street'')
   \<and> map_option address (extract_cli
        (exampleListing ''$325,000'' ''12 Oak Street'' ''/img/a.jpg'' ''/listing/1'' ''$325,000'')
        ''Columbus'' ''OH'' 0 exampleEnv)
     = map_option address (extract_cli
        (exampleListing ''$325,000'' ''12 Oak Street'' ''/img/a.jpg'' ''/listing/1'' ''$325,000'')
        ''Columbus'' ''OH'' 0 exampleEnv2)
   \<and> map_option description (extract_cli
        (exampleListing ''$325,000'' ''12 Oak Street'' ''/img/a.jpg'' ''/listing/1'' ''$325,000'')
        ''Columbus'' ''OH'' 0 exampleEnv)
     = map_option description (extract_cli
        (exampleListing ''$325,000'' ''12 Oak Street'' ''/img/a.jpg'' ''/listing/1'' ''$325,000'')
        ''Columbus'' ''OH'' 0 exampleEnv2)
   \<and> extract_cli
        (exampleListing ''$325,000'' ''12 Oak Street'' ''/img/a.jpg'' ''/listing/1'' ''$325,000'')
        ''Columbus'' ''OH'' 0 exampleEnv \<noteq> None"
proof -
  let ?l = "exampleListing ''$325,000'' ''12 Oak Street'' ''/img/a.jpg'' ''/listing/1''
              ''$325,000''"
  have a: "10 \<le> length (orElse (parseAddress ''$325,000'' ''$325,000'' ''Columbus'' ''OH'')
                   ''12 Oak Street'')"
    by (simp add: example_no_address orElse_def)
  obtain r1 where r1: "extract_cli ?l ''Columbus'' ''OH'' 0 exampleEnv = Some r1"
    using extract_cli_price [OF example_cli_price] by blast
  obtain r2 where r2: "extract_cli ?l ''Columbus'' ''OH'' 0 exampleEnv2 = Some r2"
    using extract_cli_price [OF example_cli_price] by blast
  have b: "10 \<le> length (orElse (parseAddress (listingTextContent ?l) (listingTextContent ?l)
                                   ''Columbus'' ''OH'')
                               (extractText ?l addressSelectors))"
    using a by (simp add: trim_def char_defs)
  from extract_cli_repeatable [of ?l "''Columbus''" "''OH''" 0 exampleEnv exampleEnv2 r1 r2]
    r1 r2 b
  have "address r1 = address r2 \<and> description r1 = description r2" by blast
  with r1 r2 a show ?thesis by simp
qed

text \<open>
  The claim as stated fails: a node without an address gets a synthesized address, which
  is drawn anew on each run.
\<close>

theorem synthesized_address_differs_counterexample:
  "map_option address (extract_cli
        (exampleListing ''$325,000'' [] ''/img/a.jpg'' ''/listing/1'' ''$325,000'')
        ''Columbus'' ''OH'' 0 exampleEnv) = Some ''5000 Pine St, Columbus, OH''
   \<and> map_option address (extract_cli
        (exampleListing ''$325,000'' [] ''/img/a.jpg'' ''/listing/1'' ''$325,000'')
        ''Columbus'' ''OH'' 0 exampleEnv2) = Some ''2500 Main Ln, Columbus, OH''"
proof -
  let ?l = "exampleListing ''$325,000'' [] ''/img/a.jpg'' ''/listing/1'' ''$325,000''"
  obtain r1 where r1: "extract_cli ?l ''Columbus'' ''OH'' 0 exampleEnv = Some r1"
    using extract_cli_price [OF example_cli_price] by blast
  obtain r2 where r2: "extract_cli ?l ''Columbus'' ''OH'' 0 exampleEnv2 = Some r2"
    using extract_cli_price [OF example_cli_price] by blast
  have a1: "address r1 = ''5000 Pine St, Columbus, OH''"
    using extract_cli_fields [OF r1]
    by (simp add: example_no_address finalAddress_cli_def orElse_def trim_def example_address)
  have a2: "address r2 = ''2500 Main Ln, Columbus, OH''"
    using extract_cli_fields [OF r2]
    by (simp add: example_no_address finalAddress_cli_def orElse_def trim_def example_address2)
  from r1 r2 a1 a2 show ?thesis by simp
qed

section \<open>The synthesized address\<close>

text \<open>
  C8, as amended: for every city and state, the synthesized fallback address ends with a
  comma, the city, a comma and the state, and contains at least one digit. With draws
  below 1, its length is between 12 and 19 characters plus the lengths of the city and of
  the state; so it is between 10 and 60 characters whenever city and state together have
  at most 41 characters.
\<close>

theorem synthesizeAddress_shape:
  "(\<exists>pre. synthesizeAddress e cityName stateName = pre @ '', '' @ cityName @ '', '' @ stateName)
   \<and> list_ex isDigit (synthesizeAddress e cityName stateName)
   \<and> (validRandom (random1 e) \<and> validRandom (random2 e) \<and> validRandom (random3 e) \<longrightarrow>
        12 + length cityName + length stateName \<le> length (synthesizeAddress e cityName stateName)
        \<and> length (synthesizeAddress e cityName stateName) \<le> 19 + length cityName + length stateName)
   \<and> (validRandom (random1 e) \<and> validRandom (random2 e) \<and> validRandom (random3 e)
        \<and> length cityName + length stateName \<le> 41 \<longrightarrow>
        10 \<le> length (synthesizeAddress e cityName stateName)
        \<and> length (synthesizeAddress e cityName stateName) \<le> 60)"
proof -
  have c1: "\<exists>pre. synthesizeAddress e cityName stateName = pre @ '', '' @ cityName @ '', '' @ stateName"
    by (simp add: synthesizeAddress_def Let_def)
  obtain c cs where "natToString (floorRandom (random1 e) 9999 + 1) = c # cs" "isDigit c"
    using natToString_digits [of "floorRandom (random1 e) 9999 + 1"]
    by (cases "natToString (floorRandom (random1 e) 9999 + 1)") auto
  then have c2: "list_ex isDigit (synthesizeAddress e cityName stateName)"
    by (simp add: synthesizeAddress_def Let_def)
  have c3: "validRandom (random1 e) \<and> validRandom (random2 e) \<and> validRandom (random3 e) \<longrightarrow>
        12 + length cityName + length stateName \<le> length (synthesizeAddress e cityName stateName)
        \<and> length (synthesizeAddress e cityName stateName) \<le> 19 + length cityName + length stateName"
    using synthesizeAddress_length by blast
  have c4: "validRandom (random1 e) \<and> validRandom (random2 e) \<and> validRandom (random3 e)
        \<and> length cityName + length stateName \<le> 41 \<longrightarrow>
        10 \<le> length (synthesizeAddress e cityName stateName)
        \<and> length (synthesizeAddress e cityName stateName) \<le> 60"
    using synthesizeAddress_length [of e cityName stateName] by auto
  show ?thesis by (rule conjI [OF c1 conjI [OF c2 conjI [OF c3 c4]]])
qed

text \<open>Columbus, OH.\<close>

theorem synthesizeAddress_shape_witness:
  "validRandom (random1 exampleEnv) \<and> validRandom (random2 exampleEnv)
   \<and> validRandom (random3 exampleEnv)
   \<and> length ''Columbus'' + length ''OH'' \<le> 41
   \<and> synthesizeAddress exampleEnv ''Columbus'' ''OH'' = ''5000 Pine St, Columbus, OH''
   \<and> 10 \<le> length (synthesizeAddress exampleEnv ''Columbus'' ''OH'')
   \<and> length (synthesizeAddress exampleEnv ''Columbus'' ''OH'') \<le> 60"
proof -
  have a: "validRandom (random1 exampleEnv) \<and> validRandom (random2 exampleEnv)
           \<and> validRandom (random3 exampleEnv)"
    by (simp add: validRandom_def exampleEnv_def)
  have b: "length ''Columbus'' + length ''OH'' \<le> 41" by simp
  from synthesizeAddress_shape [of exampleEnv "''Columbus''" "''OH''"] a b
  have c: "10 \<le> length (synthesizeAddress exampleEnv ''Columbus'' ''OH'')
           \<and> length (synthesizeAddress exampleEnv ''Columbus'' ''OH'') \<le> 60"
    by blast
  have d: "synthesizeAddress exampleEnv ''Columbus'' ''OH'' = ''5000 Pine St, Columbus, OH''"
    by (simp add: example_address)
  from a b c d show ?thesis by blast
qed

text \<open>
  The claim as stated fails: nothing bounds the length of the city and the state, and for
  a city of 43 characters and a state of 10 the synthesized address has 69 characters.
\<close>

theorem synthesizeAddress_long_city_counterexample:
  "validRandom (random1 exampleEnv) \<and> validRandom (random2 exampleEnv)
   \<and> validRandom (random3 exampleEnv)
   \<and> synthesizeAddress exampleEnv ''Township of Washington in Gloucester County'' ''New Jersey''
       = ''5000 Pine St, Township of Washington in Gloucester County, New Jersey''
   \<and> length (synthesizeAddress exampleEnv ''Township of Washington in Gloucester County''
        ''New Jersey'') = 69"
proof -
  have a: "validRandom (random1 exampleEnv) \<and> validRandom (random2 exampleEnv)
           \<and> validRandom (random3 exampleEnv)"
    by (simp add: validRandom_def exampleEnv_def)
  have b: "synthesizeAddress exampleEnv ''Township of Washington in Gloucester County''
             ''New Jersey''
           = ''5000 Pine St, Township of Washington in Gloucester County, New Jersey''"
    by (simp add: example_address)
  have c: "length ''5000 Pine St, Township of Washington in Gloucester County, New Jersey'' = 69"
    by simp
  from a b c show ?thesis by simp
qed

section \<open>The filter on property URLs\<close>

text \<open>
  C9 at the MCP collector, which makes the link absolute and has no filter: the link
  \<open>mailto:agent@example.com\<close> becomes \<open>https://www.realty.com/mailto:agent@example.com\<close>,
  and the record is emitted with it as its property URL.
\<close>

theorem mcp_keeps_mailto_url:
  "normalizePropertyUrl_mcp ''mailto:agent@example.com''
     = ''https://www.realty.com/mailto:agent@example.com''
   \<and> map_option propertyUrl (extract_mcp
        (exampleListing ''$325,000'' ''12 Oak Street'' ''/img/a.jpg'' ''mailto:agent@example.com''
           ''3 bed'') ''Columbus'' ''OH'' 0 exampleEnv)
     = Some ''https://www.realty.com/mailto:agent@example.com''"
proof -
  let ?l = "exampleListing ''$325,000'' ''12 Oak Street'' ''/img/a.jpg''
              ''mailto:agent@example.com'' ''3 bed''"
  have a: "normalizePropertyUrl_mcp ''mailto:agent@example.com''
     = ''https://www.realty.com/mailto:agent@example.com''"
    by (simp add: normalizePropertyUrl_mcp_def absoluteUrl_def)
  have "extract_mcp ?l ''Columbus'' ''OH'' 0 exampleEnv \<noteq> None"
    using example_mcp_price [of "''12 Oak Street''" "''/img/a.jpg''" "''mailto:agent@example.com''"]
    by (simp add: extract_mcp_def Let_def orElse_def trim_def char_defs normalizeImageUrl_def
        normalizePropertyUrl_mcp_def absoluteUrl_def)
  then obtain r where r: "extract_mcp ?l ''Columbus'' ''OH'' 0 exampleEnv = Some r" by auto
  from extract_mcp_Some [OF r] a have "propertyUrl r = ''https://www.realty.com/mailto:agent@example.com''"
    by simp
  with r a show ?thesis by simp
qed

text \<open>
  X1: in the CLI collector and in the Lambda service, a link whose absolute URL contains
  \<open>mailto:\<close>, \<open>tel:\<close>, \<open>javascript:\<close>, \<open>#\<close>, \<open>agent\<close> or \<open>contact\<close> is discarded: the property
  URL of the record is the empty string. The link \<open>mailto:agent@example.com\<close> is one.
\<close>

theorem normalizePropertyUrl_discards:
  "(sub \<in> set [''mailto:'', ''tel:'', ''javascript:'', ''#'', ''agent'', ''contact'']
      \<and> (\<exists>pre post. absoluteUrl href = pre @ sub @ post)
      \<longrightarrow> normalizePropertyUrl href = [])
   \<and> normalizePropertyUrl ''mailto:agent@example.com'' = []
   \<and> (extract_cli l cityName stateName index e = Some r \<longrightarrow>
        propertyUrl r = normalizePropertyUrl (extractAttribute l linkSelectors ''href''))
   \<and> propertyUrl (extract_lambda l cityName stateName index e)
        = normalizePropertyUrl (extractAttribute l linkSelectors ''href'')"
proof -
  have c1: "sub \<in> set [''mailto:'', ''tel:'', ''javascript:'', ''#'', ''agent'', ''contact'']
      \<and> (\<exists>pre post. absoluteUrl href = pre @ sub @ post)
      \<longrightarrow> normalizePropertyUrl href = []"
  proof
    assume a: "sub \<in> set [''mailto:'', ''tel:'', ''javascript:'', ''#'', ''agent'', ''contact'']
      \<and> (\<exists>pre post. absoluteUrl href = pre @ sub @ post)"
    then have "includesStr (absoluteUrl href) sub" by (simp only: includesStr_iff)
    with a have "nonPropertyUrl (absoluteUrl href)"
      unfolding nonPropertyUrl_def by auto
    then show "normalizePropertyUrl href = []"
      by (simp add: normalizePropertyUrl_def Let_def)
  qed
  have c2: "normalizePropertyUrl ''mailto:agent@example.com'' = []"
    by (simp add: normalizePropertyUrl_def absoluteUrl_def nonPropertyUrl_def Let_def)
  have c3: "extract_cli l cityName stateName index e = Some r \<longrightarrow>
        propertyUrl r = normalizePropertyUrl (extractAttribute l linkSelectors ''href'')"
    using extract_cli_urls by blast
  have c4: "propertyUrl (extract_lambda l cityName stateName index e)
        = normalizePropertyUrl (extractAttribute l linkSelectors ''href'')"
    by (simp add: extract_lambda_def Let_def)
  show ?thesis by (rule conjI [OF c1 conjI [OF c2 conjI [OF c3 c4]]])
qed

text \<open>A link with an anchor, and the record of a node whose link is a mail address.\<close>

theorem normalizePropertyUrl_discards_witness:
  "''#'' \<in> set [''mailto:'', ''tel:'', ''javascript:'', ''#'', ''agent'', ''contact'']
   \<and> absoluteUrl ''/listing/1#photos'' = ''https://www.realty.com/listing/1'' @ ''#'' @ ''photos''
   \<and> normalizePropertyUrl ''/listing/1#photos'' = []
   \<and> map_option propertyUrl (extract_cli
        (exampleListing ''$325,000'' ''12 Oak Street'' ''/img/a.jpg'' ''mailto:agent@example.com''
           ''$325,000'') ''Columbus'' ''OH'' 0 exampleEnv) = Some []"
proof -
  let ?l = "exampleListing ''$325,000'' ''12 Oak Street'' ''/img/a.jpg''
              ''mailto:agent@example.com'' ''$325,000''"
  have a: "''#'' \<in> set [''mailto:'', ''tel:'', ''javascript:'', ''#'', ''agent'', ''contact'']"
    by simp
  have b: "absoluteUrl ''/listing/1#photos'' = ''https://www.realty.com/listing/1'' @ ''#'' @ ''photos''"
    by (simp add: absoluteUrl_def)
  from normalizePropertyUrl_discards [of "''#''" "''/listing/1#photos''"] a b
  have c: "normalizePropertyUrl ''/listing/1#photos'' = []" by blast
  have "parsePrice (extractText ?l priceSelectors) (listingTextContent ?l) = Some ''$325,000''"
    by (simp add: price_defs rx_defs char_defs trim_def)
  then obtain r where r: "extract_cli ?l ''Columbus'' ''OH'' 0 exampleEnv = Some r"
    using extract_cli_price by blast
  from normalizePropertyUrl_discards [of _ _ ?l "''Columbus''" "''OH''" 0 exampleEnv r] r
  have "propertyUrl r = normalizePropertyUrl (extractAttribute ?l linkSelectors ''href'')"
    by blast
  moreover have "normalizePropertyUrl ''mailto:agent@example.com'' = []"
    using normalizePropertyUrl_discards by blast
  ultimately have "propertyUrl r = []" by simp
  with r a b c show ?thesis by simp
qed

section \<open>The gate of the MCP collector\<close>

text \<open>
  C10: in the MCP collector a record is emitted only when price, address, image URL and
  property URL are all non-empty. Every record the callback returns has the four fields
  non-empty; a node for which one of the four values is empty or absent gets \<open>null\<close>; and
  every entry of the list the collector returns is a record with the four fields
  non-empty.
\<close>

theorem mcp_all_fields_gate:
  "(extract_mcp l cityName stateName index e = Some r \<longrightarrow>
      price r \<noteq> [] \<and> address r \<noteq> [] \<and> imageUrl r \<noteq> [] \<and> propertyUrl r \<noteq> [])
   \<and> (parsePrice (extractText l priceSelectors @ '' '' @ listingTextContent l)
             (listingTextContent l) = None
         \<or> parsePrice (extractText l priceSelectors @ '' '' @ listingTextContent l)
             (listingTextContent l) = Some []
         \<or> orElse (parseAddress (extractText l addressSelectors @ '' '' @ listingTextContent l)
                       (listingTextContent l) cityName stateName)
                   (extractText l addressSelectors) = []
         \<or> normalizeImageUrl (extractImageUrl l) = []
         \<or> normalizePropertyUrl_mcp (extractAttribute l linkSelectors ''href'') = []
      \<longrightarrow> extract_mcp l cityName stateName index e = None)
   \<and> (p \<in> set (collectProperties_mcp pg cityName stateName maxProperties envs) \<longrightarrow>
        (\<exists>r'. p = Some r' \<and> price r' \<noteq> [] \<and> address r' \<noteq> [] \<and> imageUrl r' \<noteq> []
              \<and> propertyUrl r' \<noteq> []))"
proof -
  have c1: "extract_mcp l cityName stateName index e = Some r \<longrightarrow>
      price r \<noteq> [] \<and> address r \<noteq> [] \<and> imageUrl r \<noteq> [] \<and> propertyUrl r \<noteq> []"
    using extract_mcp_Some by blast
  have c2: "parsePrice (extractText l priceSelectors @ '' '' @ listingTextContent l)
             (listingTextContent l) = None
         \<or> parsePrice (extractText l priceSelectors @ '' '' @ listingTextContent l)
             (listingTextContent l) = Some []
         \<or> orElse (parseAddress (extractText l addressSelectors @ '' '' @ listingTextContent l)
                       (listingTextContent l) cityName stateName)
                   (extractText l addressSelectors) = []
         \<or> normalizeImageUrl (extractImageUrl l) = []
         \<or> normalizePropertyUrl_mcp (extractAttribute l linkSelectors ''href'') = []
      \<longrightarrow> extract_mcp l cityName stateName index e = None"
    using extract_mcp_reject by blast
  have c3: "p \<in> set (collectProperties_mcp pg cityName stateName maxProperties envs) \<longrightarrow>
        (\<exists>r'. p = Some r' \<and> price r' \<noteq> [] \<and> address r' \<noteq> [] \<and> imageUrl r' \<noteq> []
              \<and> propertyUrl r' \<noteq> [])"
  proof
    assume "p \<in> set (collectProperties_mcp pg cityName stateName maxProperties envs)"
    then obtain l' index' e' where p: "p = extract_mcp l' cityName stateName index' e'" "p \<noteq> None"
      using collectProperties_mcp_set by blast
    then obtain r' where r': "extract_mcp l' cityName stateName index' e' = Some r'" by auto
    then have "price r' \<noteq> [] \<and> address r' \<noteq> [] \<and> imageUrl r' \<noteq> [] \<and> propertyUrl r' \<noteq> []"
      using extract_mcp_Some by blast
    with p r' show "\<exists>r'. p = Some r' \<and> price r' \<noteq> [] \<and> address r' \<noteq> [] \<and> imageUrl r' \<noteq> []
              \<and> propertyUrl r' \<noteq> []"
      by simp
  qed
  show ?thesis by (rule conjI [OF c1 conjI [OF c2 c3]])
qed

text \<open>A node with all four values, and the same node without an image.\<close>

theorem mcp_all_fields_gate_witness:
  "map_option price (extract_mcp
      (exampleListing ''$325,000'' ''12 Oak Street'' ''/img/a.jpg'' ''/listing/1'' ''3 bed'')
      ''Columbus'' ''OH'' 0 exampleEnv) = Some ''$325,000''
   \<and> map_option imageUrl (extract_mcp
      (exampleListing ''$325,000'' ''12 Oak Street'' ''/img/a.jpg'' ''/listing/1'' ''3 bed'')
      ''Columbus'' ''OH'' 0 exampleEnv) = Some ''https://www.realty.com/img/a.jpg''
   \<and> normalizeImageUrl (extractImageUrl
        (exampleListing ''$325,000'' ''12 Oak Street'' [] ''/listing/1'' ''3 bed'')) = []
   \<and> extract_mcp
      (exampleListing ''$325,000'' ''12 Oak Street'' [] ''/listing/1'' ''3 bed'')
      ''Columbus'' ''OH'' 0 exampleEnv = None"
proof -
  let ?l = "exampleListing ''$325,000'' ''12 Oak Street'' ''/img/a.jpg'' ''/listing/1'' ''3 bed''"
  let ?m = "exampleListing ''$325,000'' ''12 Oak Street'' [] ''/listing/1'' ''3 bed''"
  have "extract_mcp ?l ''Columbus'' ''OH'' 0 exampleEnv \<noteq> None"
    using example_mcp_price [of "''12 Oak Street''" "''/img/a.jpg''" "''/listing/1''"]
    by (simp add: extract_mcp_def Let_def orElse_def trim_def char_defs normalizeImageUrl_def
        normalizePropertyUrl_mcp_def absoluteUrl_def)
  then obtain r where r: "extract_mcp ?l ''Columbus'' ''OH'' 0 exampleEnv = Some r" by auto
  then have a: "price r = ''$325,000''"
    using extract_mcp_Some [OF r] example_mcp_price [of "''12 Oak Street''" "''/img/a.jpg''" "''/listing/1''"]
    by simp
  have b: "imageUrl r = ''https://www.realty.com/img/a.jpg''"
    using extract_mcp_Some [OF r] by (simp add: normalizeImageUrl_def)
  from mcp_all_fields_gate [of ?l "''Columbus''" "''OH''" 0 exampleEnv r] r
  have c: "price r \<noteq> [] \<and> address r \<noteq> [] \<and> imageUrl r \<noteq> [] \<and> propertyUrl r \<noteq> []"
    by blast
  have d: "normalizeImageUrl (extractImageUrl ?m) = []"
    by (simp add: normalizeImageUrl_def)
  from mcp_all_fields_gate [of ?m "''Columbus''" "''OH''" 0 exampleEnv] d
  have e: "extract_mcp ?m ''Columbus'' ''OH'' 0 exampleEnv = None"
    by blast
  from r a b d e show ?thesis by simp
qed

section \<open>Image URLs\<close>

text \<open>
  X4: an image URL that starts with two slashes gets \<open>https:\<close> in front; so
  \<open>//cdn.site.com/a.jpg\<close> becomes \<open>https://cdn.site.com/a.jpg\<close>.
\<close>

theorem normalizeImageUrl_protocol_relative:
  "(startsWith imageUrl' ''//'' \<longrightarrow> normalizeImageUrl imageUrl' = ''https:'' @ imageUrl')
   \<and> normalizeImageUrl ''//cdn.site.com/a.jpg'' = ''https://cdn.site.com/a.jpg''"
proof -
  have c1: "startsWith imageUrl' ''//'' \<longrightarrow> normalizeImageUrl imageUrl' = ''https:'' @ imageUrl'"
  proof
    assume "startsWith imageUrl' ''//''"
    then obtain post where "imageUrl' = ''//'' @ post" by (auto simp: startsWith_iff)
    then show "normalizeImageUrl imageUrl' = ''https:'' @ imageUrl'"
      by (simp add: normalizeImageUrl_def)
  qed
  have c2: "normalizeImageUrl ''//cdn.site.com/a.jpg'' = ''https://cdn.site.com/a.jpg''"
    by (simp add: normalizeImageUrl_def)
  show ?thesis by (rule conjI [OF c1 c2])
qed

text \<open>Another protocol-relative URL.\<close>

theorem normalizeImageUrl_protocol_relative_witness:
  "startsWith ''//img.realty.com/b.png'' ''//''
   \<and> normalizeImageUrl ''//img.realty.com/b.png'' = ''https://img.realty.com/b.png''"
proof -
  have a: "startsWith ''//img.realty.com/b.png'' ''//''" by simp
  from normalizeImageUrl_protocol_relative [of "''//img.realty.com/b.png''"] a
  have "normalizeImageUrl ''//img.realty.com/b.png'' = ''https:'' @ ''//img.realty.com/b.png''"
    by blast
  with a show ?thesis by simp
qed

end
